theory Spec2Isabelle
  imports Complex_Main
begin

section \<open>Handles and values\<close>

text \<open>
  GL object names (\<^verbatim>\<open>GLuint\<close>) are natural numbers, 0 being the reserved "no object"
  name. Uniform locations (\<^verbatim>\<open>GLint\<close>) are integers, -1 meaning "not found".
\<close>

type_synonym GLuint = nat
type_synonym GLint = int
type_synonym GLenum = nat

subsection \<open>Floating-point values\<close>

text \<open>
  A \<^verbatim>\<open>float\<close> of the sources is a number, one of the two infinities, or NaN. The numbers
  are the reals: rounding, overflow of a finite result to an infinity, and the sign of
  zero (every zero is the positive one) are outside the model. The arithmetic follows
  IEEE 754 on these values: NaN is absorbing, the undefined forms (the difference of
  equal infinities, zero times an infinity, zero over zero, an infinity over an infinity)
  are NaN, and a nonzero number over zero is an infinity.
\<close>

datatype gl_float = Float real | PInf | NInf | NaN

definition inf_of_sign :: "real \<Rightarrow> gl_float" where
  "inf_of_sign s = (if s = 0 then NaN else if 0 < s then PInf else NInf)"

fun float_neg :: "gl_float \<Rightarrow> gl_float" where
  "float_neg (Float x) = Float (- x)"
| "float_neg PInf = NInf"
| "float_neg NInf = PInf"
| "float_neg NaN = NaN"

fun float_add :: "gl_float \<Rightarrow> gl_float \<Rightarrow> gl_float" where
  "float_add (Float x) (Float y) = Float (x + y)"
| "float_add NaN b = NaN"
| "float_add a NaN = NaN"
| "float_add PInf NInf = NaN"
| "float_add NInf PInf = NaN"
| "float_add PInf b = PInf"
| "float_add a PInf = PInf"
| "float_add NInf b = NInf"
| "float_add a NInf = NInf"

fun float_mul :: "gl_float \<Rightarrow> gl_float \<Rightarrow> gl_float" where
  "float_mul (Float x) (Float y) = Float (x * y)"
| "float_mul NaN b = NaN"
| "float_mul a NaN = NaN"
| "float_mul PInf (Float y) = inf_of_sign y"
| "float_mul NInf (Float y) = inf_of_sign (- y)"
| "float_mul (Float x) PInf = inf_of_sign x"
| "float_mul (Float x) NInf = inf_of_sign (- x)"
| "float_mul PInf PInf = PInf"
| "float_mul NInf NInf = PInf"
| "float_mul PInf NInf = NInf"
| "float_mul NInf PInf = NInf"

fun float_div :: "gl_float \<Rightarrow> gl_float \<Rightarrow> gl_float" where
  "float_div (Float x) (Float y) = (if y = 0 then inf_of_sign x else Float (x / y))"
| "float_div NaN b = NaN"
| "float_div a NaN = NaN"
| "float_div (Float x) PInf = Float 0"
| "float_div (Float x) NInf = Float 0"
| "float_div PInf (Float y) = (if 0 \<le> y then PInf else NInf)"
| "float_div NInf (Float y) = (if 0 \<le> y then NInf else PInf)"
| "float_div a b = NaN"

text \<open>The comparisons \<^verbatim>\<open><\<close> and \<^verbatim>\<open>==\<close> of C++: every comparison with NaN is false.\<close>

fun float_less :: "gl_float \<Rightarrow> gl_float \<Rightarrow> bool" where
  "float_less (Float x) (Float y) = (x < y)"
| "float_less (Float x) PInf = True"
| "float_less NInf (Float y) = True"
| "float_less NInf PInf = True"
| "float_less a b = False"

definition float_eq :: "gl_float \<Rightarrow> gl_float \<Rightarrow> bool" where
  "float_eq a b = (a \<noteq> NaN \<and> a = b)"

text \<open>The operators of the sources, written \<open>+\<close>, \<open>-\<close>, \<open>*\<close>, \<open>/\<close>, \<open><\<close> and \<open>\<le>\<close>.\<close>

instantiation gl_float :: "{plus, minus, uminus, times, inverse, ord}"
begin
definition plus_gl_float :: "gl_float \<Rightarrow> gl_float \<Rightarrow> gl_float" where
  "plus_gl_float a b = float_add a b"
definition uminus_gl_float :: "gl_float \<Rightarrow> gl_float" where
  "uminus_gl_float a = float_neg a"
definition minus_gl_float :: "gl_float \<Rightarrow> gl_float \<Rightarrow> gl_float" where
  "minus_gl_float a b = float_add a (float_neg b)"
definition times_gl_float :: "gl_float \<Rightarrow> gl_float \<Rightarrow> gl_float" where
  "times_gl_float a b = float_mul a b"
definition divide_gl_float :: "gl_float \<Rightarrow> gl_float \<Rightarrow> gl_float" where
  "divide_gl_float a b = float_div a b"
definition inverse_gl_float :: "gl_float \<Rightarrow> gl_float" where
  "inverse_gl_float a = float_div (Float 1) a"
definition less_gl_float :: "gl_float \<Rightarrow> gl_float \<Rightarrow> bool" where
  "less_gl_float a b = float_less a b"
definition less_eq_gl_float :: "gl_float \<Rightarrow> gl_float \<Rightarrow> bool" where
  "less_eq_gl_float a b = (float_less a b \<or> float_eq a b)"
instance ..
end

text \<open>
  \<^verbatim>\<open>glm::max\<close>, \<^verbatim>\<open>glm::min\<close> and \<^verbatim>\<open>glm::clamp\<close> of the GLM library, which computes them with
  one comparison each: \<^verbatim>\<open>(x < y) ? y : x\<close>, \<^verbatim>\<open>(y < x) ? y : x\<close> and
  \<^verbatim>\<open>min(max(x, minVal), maxVal)\<close>. The cosine and sine of an infinity or of NaN are NaN.
\<close>

definition glm_max :: "gl_float \<Rightarrow> gl_float \<Rightarrow> gl_float" where
  "glm_max x y = (if x < y then y else x)"

definition glm_min :: "gl_float \<Rightarrow> gl_float \<Rightarrow> gl_float" where
  "glm_min x y = (if y < x then y else x)"

definition glm_clamp :: "gl_float \<Rightarrow> gl_float \<Rightarrow> gl_float \<Rightarrow> gl_float" where
  "glm_clamp x minVal maxVal = glm_min (glm_max x minVal) maxVal"

definition glm_cos :: "gl_float \<Rightarrow> gl_float" where
  "glm_cos a = (case a of Float x \<Rightarrow> Float (cos x) | PInf \<Rightarrow> NaN | NInf \<Rightarrow> NaN | NaN \<Rightarrow> NaN)"

definition glm_sin :: "gl_float \<Rightarrow> gl_float" where
  "glm_sin a = (case a of Float x \<Rightarrow> Float (sin x) | PInf \<Rightarrow> NaN | NInf \<Rightarrow> NaN | NaN \<Rightarrow> NaN)"

text \<open>
  \<^verbatim>\<open>static_cast<int>(x)\<close> for a float \<open>x\<close>: truncation towards zero when the truncated value
  is a 32-bit \<^verbatim>\<open>int\<close>; for any other value, an infinity or NaN the conversion is undefined
  behaviour, the result \<open>None\<close>.
\<close>

definition static_cast_int :: "gl_float \<Rightarrow> int option" where
  "static_cast_int a =
     (case a of
        Float x \<Rightarrow>
          (let n = (if 0 \<le> x then \<lfloor>x\<rfloor> else \<lceil>x\<rceil>)
           in if - (2 ^ 31) \<le> n \<and> n < 2 ^ 31 then Some n else None)
      | PInf \<Rightarrow> None | NInf \<Rightarrow> None | NaN \<Rightarrow> None)"

subsection \<open>Uniform values, images and draw calls\<close>

datatype uniform_value = UInt int | UFloat gl_float | UVec2 gl_float gl_float

text \<open>
  The content of a texture, symbolically: storage that was allocated without data, a
  cleared target, externally supplied pixels, or the output of a draw call that ran a
  program over a source image.
\<close>

datatype image = Blank | Cleared | External GLuint | Shaded GLuint image

record draw_call =
  d_program :: GLuint
  d_target :: GLuint
  d_source :: GLuint
  d_uniforms :: "GLint \<Rightarrow> uniform_value option"

section \<open>The OpenGL ES / EGL state the code drives\<close>

text \<open>
  The graphics library is external to the repository. Its state is modelled as far as the
  calls of \<^verbatim>\<open>opengl_context.cpp\<close>, \<^verbatim>\<open>shader_program.cpp\<close> and \<^verbatim>\<open>gpu_effect.cpp\<close> use it:
  the live object names, the bindings, storage sizes and framebuffer attachments, the
  symbolic content of each texture, the uniform store of each program, a log of the draw
  and clear calls issued, and what the driver decides (the active uniforms of each linked
  program, whether a framebuffer configuration is supported, whether
  \<^verbatim>\<open>eglMakeCurrent\<close> succeeds). The quad geometry and the statics \<open>s_quadInitialized\<close>,
  \<open>s_quadVAO\<close>, \<open>s_quadVBO\<close> of \<^verbatim>\<open>GPUEffect\<close> are process-wide, so they live here too.
\<close>

record name_table =
  framebuffers :: "GLuint list"
  textures :: "GLuint list"
  renderbuffers :: "GLuint list"

record binding_table =
  bound_framebuffer :: GLuint
  active_unit :: nat
  bound_texture :: "nat \<Rightarrow> GLuint"
  bound_renderbuffer :: GLuint
  current_program :: GLuint

record object_table =
  tex_size :: "GLuint \<Rightarrow> int \<times> int"
  rb_size :: "GLuint \<Rightarrow> int \<times> int"
  color_attachment :: "GLuint \<Rightarrow> GLuint"
  depth_attachment :: "GLuint \<Rightarrow> GLuint"

record gl_driver =
  program_uniforms :: "GLuint \<Rightarrow> string list"
  fb_supported :: bool
  egl_make_current_ok :: bool

record quad_state =
  vertex_arrays :: "GLuint list"
  buffers :: "GLuint list"
  bound_vertex_array :: GLuint
  viewport :: "int \<times> int"
  egl_current :: bool
  s_quadInitialized :: bool
  s_quadVAO :: GLuint
  s_quadVBO :: GLuint

record gl_state =
  names :: name_table
  bindings :: binding_table
  objects :: object_table
  tex_image :: "GLuint \<Rightarrow> image"
  uniforms :: "GLuint \<Rightarrow> GLint \<Rightarrow> uniform_value option"
  draws :: "draw_call list"
  clears :: "GLuint list"
  driver :: gl_driver
  misc :: quad_state

text \<open>\<^verbatim>\<open>glGen*\<close> returns a name that is not in use and is not 0.\<close>

definition fresh_name :: "GLuint list \<Rightarrow> GLuint" where
  "fresh_name xs = Suc (foldr max xs 0)"

definition glGenFramebuffers :: "gl_state \<Rightarrow> GLuint \<times> gl_state" where
  "glGenFramebuffers gl =
     (let n = fresh_name (framebuffers (names gl))
      in (n, gl\<lparr>names := (names gl)\<lparr>framebuffers := framebuffers (names gl) @ [n]\<rparr>,
                 objects := (objects gl)
                   \<lparr>color_attachment := (color_attachment (objects gl))(n := 0),
                    depth_attachment := (depth_attachment (objects gl))(n := 0)\<rparr>\<rparr>))"

definition glGenTextures :: "gl_state \<Rightarrow> GLuint \<times> gl_state" where
  "glGenTextures gl =
     (let n = fresh_name (textures (names gl))
      in (n, gl\<lparr>names := (names gl)\<lparr>textures := textures (names gl) @ [n]\<rparr>,
                 objects := (objects gl)\<lparr>tex_size := (tex_size (objects gl))(n := (0, 0))\<rparr>\<rparr>))"

definition glGenRenderbuffers :: "gl_state \<Rightarrow> GLuint \<times> gl_state" where
  "glGenRenderbuffers gl =
     (let n = fresh_name (renderbuffers (names gl))
      in (n, gl\<lparr>names := (names gl)\<lparr>renderbuffers := renderbuffers (names gl) @ [n]\<rparr>,
                 objects := (objects gl)\<lparr>rb_size := (rb_size (objects gl))(n := (0, 0))\<rparr>\<rparr>))"

definition glBindFramebuffer :: "GLuint \<Rightarrow> gl_state \<Rightarrow> gl_state" where
  "glBindFramebuffer fbo gl = gl\<lparr>bindings := (bindings gl)\<lparr>bound_framebuffer := fbo\<rparr>\<rparr>"

definition glActiveTexture :: "nat \<Rightarrow> gl_state \<Rightarrow> gl_state" where
  "glActiveTexture unit gl = gl\<lparr>bindings := (bindings gl)\<lparr>active_unit := unit\<rparr>\<rparr>"

definition glBindTexture :: "GLuint \<Rightarrow> gl_state \<Rightarrow> gl_state" where
  "glBindTexture tex gl =
     gl\<lparr>bindings := (bindings gl)
          \<lparr>bound_texture := (bound_texture (bindings gl))(active_unit (bindings gl) := tex)\<rparr>\<rparr>"

definition glBindRenderbuffer :: "GLuint \<Rightarrow> gl_state \<Rightarrow> gl_state" where
  "glBindRenderbuffer rb gl = gl\<lparr>bindings := (bindings gl)\<lparr>bound_renderbuffer := rb\<rparr>\<rparr>"

definition glUseProgram :: "GLuint \<Rightarrow> gl_state \<Rightarrow> gl_state" where
  "glUseProgram p gl = gl\<lparr>bindings := (bindings gl)\<lparr>current_program := p\<rparr>\<rparr>"

definition glBindVertexArray :: "GLuint \<Rightarrow> gl_state \<Rightarrow> gl_state" where
  "glBindVertexArray vao gl = gl\<lparr>misc := (misc gl)\<lparr>bound_vertex_array := vao\<rparr>\<rparr>"

definition glViewport :: "int \<Rightarrow> int \<Rightarrow> gl_state \<Rightarrow> gl_state" where
  "glViewport w h gl = gl\<lparr>misc := (misc gl)\<lparr>viewport := (w, h)\<rparr>\<rparr>"

text \<open>
  \<^verbatim>\<open>glTexImage2D\<close> with a null data pointer (re)allocates the storage of the texture bound
  to the active unit, leaving its content undefined (\<open>Blank\<close>); with a negative size it
  raises \<^verbatim>\<open>GL_INVALID_VALUE\<close> and the texture keeps what it had.
  \<^verbatim>\<open>glRenderbufferStorage\<close> does the same for the bound renderbuffer.
\<close>

definition GL_RGBA :: GLenum where
  "GL_RGBA = 6408"

definition glTexImage2D :: "GLenum \<Rightarrow> int \<Rightarrow> int \<Rightarrow> gl_state \<Rightarrow> gl_state" where
  "glTexImage2D format w h gl =
     (let t = bound_texture (bindings gl) (active_unit (bindings gl));
          invalid = (w < 0 \<or> h < 0)
      in gl\<lparr>objects := (objects gl)
               \<lparr>tex_size := (tex_size (objects gl))
                  (t := if invalid then tex_size (objects gl) t else (w, h))\<rparr>,
              tex_image := (tex_image gl)(t := if invalid then tex_image gl t else Blank)\<rparr>)"

definition glRenderbufferStorage :: "int \<Rightarrow> int \<Rightarrow> gl_state \<Rightarrow> gl_state" where
  "glRenderbufferStorage w h gl =
     (let rb = bound_renderbuffer (bindings gl);
          invalid = (w < 0 \<or> h < 0)
      in gl\<lparr>objects := (objects gl)
               \<lparr>rb_size := (rb_size (objects gl))
                  (rb := if invalid then rb_size (objects gl) rb else (w, h))\<rparr>\<rparr>)"

text \<open>Attaching to the default framebuffer 0 is an error and changes nothing.\<close>

definition glFramebufferTexture2D :: "GLuint \<Rightarrow> gl_state \<Rightarrow> gl_state" where
  "glFramebufferTexture2D tex gl =
     (let f = bound_framebuffer (bindings gl)
      in gl\<lparr>objects := (objects gl)
               \<lparr>color_attachment := (color_attachment (objects gl))
                  (f := if f = 0 then color_attachment (objects gl) f else tex)\<rparr>\<rparr>)"

definition glFramebufferRenderbuffer :: "GLuint \<Rightarrow> gl_state \<Rightarrow> gl_state" where
  "glFramebufferRenderbuffer rb gl =
     (let f = bound_framebuffer (bindings gl)
      in gl\<lparr>objects := (objects gl)
               \<lparr>depth_attachment := (depth_attachment (objects gl))
                  (f := if f = 0 then depth_attachment (objects gl) f else rb)\<rparr>\<rparr>)"

text \<open>
  Framebuffer completeness (OpenGL ES 3.0, section 4.4.4): there is at least one image
  attached, every attached image has a width and a height greater than zero, and the
  implementation supports the combination of formats (\<open>fb_supported\<close>). The default
  framebuffer 0 is complete.
\<close>

definition positive_size :: "int \<times> int \<Rightarrow> bool" where
  "positive_size s = (0 < fst s \<and> 0 < snd s)"

definition attachment_complete :: "GLuint \<Rightarrow> int \<times> int \<Rightarrow> bool" where
  "attachment_complete a sz = (if a = 0 then True else positive_size sz)"

definition glCheckFramebufferStatus_complete :: "gl_state \<Rightarrow> bool" where
  "glCheckFramebufferStatus_complete gl =
     (let f = bound_framebuffer (bindings gl);
          c = color_attachment (objects gl) f;
          d = depth_attachment (objects gl) f
      in if f = 0 then True
         else if c = 0 \<and> d = 0 then False
         else attachment_complete c (tex_size (objects gl) c) \<and>
              attachment_complete d (rb_size (objects gl) d) \<and>
              fb_supported (driver gl))"

text \<open>
  Deleting an object frees its name and unbinds it where it is bound. Deleting a
  framebuffer does not delete the images attached to it. Name 0 is silently ignored.
\<close>

definition glDeleteFramebuffers :: "GLuint \<Rightarrow> gl_state \<Rightarrow> gl_state" where
  "glDeleteFramebuffers fbo gl =
     (if fbo = 0 then gl
      else gl\<lparr>names := (names gl)\<lparr>framebuffers := removeAll fbo (framebuffers (names gl))\<rparr>,
              objects := (objects gl)
                \<lparr>color_attachment := (color_attachment (objects gl))(fbo := 0),
                 depth_attachment := (depth_attachment (objects gl))(fbo := 0)\<rparr>,
              bindings := (bindings gl)
                \<lparr>bound_framebuffer :=
                   (if bound_framebuffer (bindings gl) = fbo then 0
                    else bound_framebuffer (bindings gl))\<rparr>\<rparr>)"

definition glDeleteTextures :: "GLuint \<Rightarrow> gl_state \<Rightarrow> gl_state" where
  "glDeleteTextures tex gl =
     (if tex = 0 then gl
      else gl\<lparr>names := (names gl)\<lparr>textures := removeAll tex (textures (names gl))\<rparr>,
              bindings := (bindings gl)
                \<lparr>bound_texture :=
                   (\<lambda>u. if bound_texture (bindings gl) u = tex then 0
                        else bound_texture (bindings gl) u)\<rparr>\<rparr>)"

definition glDeleteRenderbuffers :: "GLuint \<Rightarrow> gl_state \<Rightarrow> gl_state" where
  "glDeleteRenderbuffers rb gl =
     (if rb = 0 then gl
      else gl\<lparr>names := (names gl)\<lparr>renderbuffers := removeAll rb (renderbuffers (names gl))\<rparr>,
              bindings := (bindings gl)
                \<lparr>bound_renderbuffer :=
                   (if bound_renderbuffer (bindings gl) = rb then 0
                    else bound_renderbuffer (bindings gl))\<rparr>\<rparr>)"

text \<open>
  The location of an active uniform is its position in the program's list of active
  uniforms; distinct active uniforms have distinct locations, and a name that is not
  active has location -1.
\<close>

fun location_of :: "string list \<Rightarrow> string \<Rightarrow> GLint" where
  "location_of [] n = -1"
| "location_of (x # xs) n =
     (if x = n then 0
      else (let l = location_of xs n in if l = -1 then -1 else l + 1))"

definition glGetUniformLocation :: "gl_state \<Rightarrow> GLuint \<Rightarrow> string \<Rightarrow> GLint" where
  "glGetUniformLocation gl p n = location_of (program_uniforms (driver gl) p) n"

text \<open>\<^verbatim>\<open>glUniform*\<close> writes into the store of the program in use; with no program in use it
  is an error and changes nothing.\<close>

definition glUniform :: "GLint \<Rightarrow> uniform_value \<Rightarrow> gl_state \<Rightarrow> gl_state" where
  "glUniform location v gl =
     (let p = current_program (bindings gl)
      in gl\<lparr>uniforms := (uniforms gl)
               (p := if p = 0 then uniforms gl p else (uniforms gl p)(location \<mapsto> v))\<rparr>)"

text \<open>
  A draw call runs the program in use over the texture bound to unit 0 (every sampler of
  these shaders is left at, or set to, unit 0) and writes the colour attachment of the
  bound framebuffer. The log entry keeps the uniform values the draw ran with.
\<close>

definition glDrawArrays :: "gl_state \<Rightarrow> gl_state" where
  "glDrawArrays gl =
     (let f = bound_framebuffer (bindings gl);
          p = current_program (bindings gl);
          src = bound_texture (bindings gl) 0;
          c = color_attachment (objects gl) f
      in gl\<lparr>draws := draws gl @
                [\<lparr>d_program = p, d_target = f, d_source = src, d_uniforms = uniforms gl p\<rparr>],
              tex_image := (tex_image gl)
                (c := if f \<noteq> 0 \<and> c \<noteq> 0 then Shaded p (tex_image gl src)
                      else tex_image gl c)\<rparr>)"

definition glClear :: "gl_state \<Rightarrow> gl_state" where
  "glClear gl =
     (let f = bound_framebuffer (bindings gl);
          c = color_attachment (objects gl) f
      in gl\<lparr>clears := clears gl @ [f],
              tex_image := (tex_image gl)
                (c := if f \<noteq> 0 \<and> c \<noteq> 0 then Cleared else tex_image gl c)\<rparr>)"

definition eglMakeCurrent :: "bool \<Rightarrow> gl_state \<Rightarrow> bool \<times> gl_state" where
  "eglMakeCurrent bind gl =
     (if egl_make_current_ok (driver gl)
      then (True, gl\<lparr>misc := (misc gl)\<lparr>egl_current := bind\<rparr>\<rparr>)
      else (False, gl))"

section \<open>OpenGLContext\<close>

text \<open>
  The EGL handles of \<^verbatim>\<open>OpenGLContext\<close>; \<^verbatim>\<open>EGL_NO_DISPLAY\<close>, \<^verbatim>\<open>EGL_NO_CONTEXT\<close> and
  \<^verbatim>\<open>EGL_NO_SURFACE\<close> are the null handle 0.
\<close>

record OpenGLContext =
  ctx_display :: nat
  ctx_context :: nat
  ctx_surface :: nat
  ctx_width :: int
  ctx_height :: int

definition context_isInitialized :: "OpenGLContext \<Rightarrow> bool" where
  "context_isInitialized c = (ctx_display c \<noteq> 0 \<and> ctx_context c \<noteq> 0)"

definition makeCurrent :: "gl_state \<Rightarrow> bool \<times> gl_state" where
  "makeCurrent gl = eglMakeCurrent True gl"

definition releaseContext :: "gl_state \<Rightarrow> bool \<times> gl_state" where
  "releaseContext gl = eglMakeCurrent False gl"

text \<open>\<^verbatim>\<open>OpenGLContext::createFramebuffer\<close> (opengl_context.cpp, lines 257-296).\<close>

definition createFramebuffer ::
  "int \<Rightarrow> int \<Rightarrow> GLenum \<Rightarrow> gl_state \<Rightarrow> GLuint \<times> gl_state" where
  "createFramebuffer width height colorFormat gl =
     (let (fbo, gl1) = glGenFramebuffers gl;
          gl2 = glBindFramebuffer fbo gl1;
          (colorTexture, gl3) = glGenTextures gl2;
          gl4 = glBindTexture colorTexture gl3;
          gl5 = glTexImage2D colorFormat width height gl4;
          gl6 = glFramebufferTexture2D colorTexture gl5;
          (depthRenderBuffer, gl7) = glGenRenderbuffers gl6;
          gl8 = glBindRenderbuffer depthRenderBuffer gl7;
          gl9 = glRenderbufferStorage width height gl8;
          gl10 = glFramebufferRenderbuffer depthRenderBuffer gl9
      in if \<not> glCheckFramebufferStatus_complete gl10
         then (0, glDeleteRenderbuffers depthRenderBuffer
                    (glDeleteTextures colorTexture (glDeleteFramebuffers fbo gl10)))
         else (fbo, glBindFramebuffer 0 gl10))"

definition deleteFramebuffer :: "GLuint \<Rightarrow> gl_state \<Rightarrow> gl_state" where
  "deleteFramebuffer fbo gl = (if fbo \<noteq> 0 then glDeleteFramebuffers fbo gl else gl)"

text \<open>\<^verbatim>\<open>bindFramebuffer\<close> returns false when \<^verbatim>\<open>glGetError\<close> reports an error; the model has
  no error state, so the bind succeeds.\<close>

definition bindFramebuffer :: "GLuint \<Rightarrow> gl_state \<Rightarrow> bool \<times> gl_state" where
  "bindFramebuffer fbo gl = (True, glBindFramebuffer fbo gl)"

text \<open>
  \<^verbatim>\<open>OpenGLContext::getFramebufferTexture\<close>: binds the framebuffer, reads the name of its
  colour attachment, and binds framebuffer 0 again.
\<close>

definition getFramebufferTexture :: "GLuint \<Rightarrow> gl_state \<Rightarrow> GLuint \<times> gl_state" where
  "getFramebufferTexture fbo gl =
     (let gl1 = glBindFramebuffer fbo gl;
          texture = color_attachment (objects gl1) (bound_framebuffer (bindings gl1))
      in (texture, glBindFramebuffer 0 gl1))"

definition clearScreen :: "gl_state \<Rightarrow> gl_state" where
  "clearScreen gl = glClear gl"

section \<open>ShaderProgram\<close>

text \<open>
  A program object and its cache of uniform locations (\<^verbatim>\<open>m_uniformLocations\<close>). A program
  that never compiled has \<open>m_programId = 0\<close>.
\<close>

record ShaderProgram =
  m_programId :: GLuint
  m_uniformLocations :: "string \<rightharpoonup> GLint"

definition isValid :: "ShaderProgram \<Rightarrow> bool" where
  "isValid sh = (m_programId sh \<noteq> 0)"

definition use :: "ShaderProgram \<Rightarrow> gl_state \<Rightarrow> gl_state" where
  "use sh gl = (if m_programId sh \<noteq> 0 then glUseProgram (m_programId sh) gl else gl)"

definition getUniformLocation :: "ShaderProgram \<Rightarrow> gl_state \<Rightarrow> string \<Rightarrow> GLint" where
  "getUniformLocation sh gl n = glGetUniformLocation gl (m_programId sh) n"

definition getCachedUniformLocation ::
  "ShaderProgram \<Rightarrow> gl_state \<Rightarrow> string \<Rightarrow> GLint \<times> ShaderProgram" where
  "getCachedUniformLocation sh gl n =
     (case m_uniformLocations sh n of
        Some l \<Rightarrow> (l, sh)
      | None \<Rightarrow>
          (let location = getUniformLocation sh gl n
           in (location, sh\<lparr>m_uniformLocations := (m_uniformLocations sh)(n \<mapsto> location)\<rparr>)))"

text \<open>The \<^verbatim>\<open>setUniform\<close> overloads for \<^verbatim>\<open>int\<close>, \<^verbatim>\<open>float\<close> and \<^verbatim>\<open>glm::vec2\<close> have one
  shape: resolve the location through the cache, write unless it is -1.\<close>

definition setUniform ::
  "string \<Rightarrow> uniform_value \<Rightarrow> ShaderProgram \<times> gl_state \<Rightarrow> ShaderProgram \<times> gl_state" where
  "setUniform n v s =
     (let location = fst (getCachedUniformLocation (fst s) (snd s) n);
          sh = snd (getCachedUniformLocation (fst s) (snd s) n)
      in (sh, if location \<noteq> -1 then glUniform location v (snd s) else snd s))"

section \<open>GPUEffect and its parameter model\<close>

datatype EffectCategory = COLOR | DISTORTION | BLUR | LIGHT | ARTISTIC | TEMPORAL | COMPOSITE

record EffectParameter =
  p_name :: string
  p_uniformName :: string
  p_defaultValue :: gl_float
  p_minValue :: gl_float
  p_maxValue :: gl_float
  p_type :: string

text \<open>
  The dynamic class of an effect object, with the members the subclass adds
  (\<^verbatim>\<open>m_lutTexture\<close>, \<^verbatim>\<open>m_curveTexture\<close>, \<^verbatim>\<open>m_time\<close>). \<open>GPUEffectBase\<close> is an object of the
  base class itself.
\<close>

datatype effect_class =
    GPUEffectBase
  | ColorGradeEffect GLuint
  | CurvesEffect GLuint
  | HSLEffect
  | GaussianBlurEffect
  | VignetteEffect
  | GlowEffect
  | ChromaticAberrationEffect
  | GlitchEffect gl_float
  | PosterizeEffect
  | InvertEffect
  | GrayscaleEffect

record GPUEffect =
  m_name :: string
  m_category :: EffectCategory
  m_shader :: "ShaderProgram option"
  m_parameters :: "string \<rightharpoonup> gl_float"
  m_parameterDefinitions :: "string \<rightharpoonup> EffectParameter"
  m_intensity :: gl_float
  m_enabled :: bool
  m_class :: effect_class

definition GPUEffect_new ::
  "effect_class \<Rightarrow> string \<Rightarrow> EffectCategory \<Rightarrow> ShaderProgram option \<Rightarrow> GPUEffect" where
  "GPUEffect_new cls n category shader =
     \<lparr>m_name = n, m_category = category, m_shader = shader, m_parameters = Map.empty,
      m_parameterDefinitions = Map.empty, m_intensity = Float 1, m_enabled = True,
      m_class = cls\<rparr>"

definition defineParameter ::
  "string \<Rightarrow> string \<Rightarrow> gl_float \<Rightarrow> gl_float \<Rightarrow> gl_float \<Rightarrow> string \<Rightarrow> GPUEffect \<Rightarrow> GPUEffect" where
  "defineParameter n uniformName defaultVal minVal maxVal ty e =
     e\<lparr>m_parameterDefinitions := (m_parameterDefinitions e)
          (n \<mapsto> \<lparr>p_name = n, p_uniformName = uniformName, p_defaultValue = defaultVal,
                  p_minValue = minVal, p_maxValue = maxVal, p_type = ty\<rparr>),
       m_parameters := (m_parameters e)(n \<mapsto> defaultVal)\<rparr>"

definition setParameter :: "string \<Rightarrow> gl_float \<Rightarrow> GPUEffect \<Rightarrow> bool \<times> GPUEffect" where
  "setParameter paramName v e =
     (case m_parameterDefinitions e paramName of
        Some d \<Rightarrow>
          (True, e\<lparr>m_parameters := (m_parameters e)
                     (paramName \<mapsto> glm_clamp v (p_minValue d) (p_maxValue d))\<rparr>)
      | None \<Rightarrow> (False, e))"

definition getParameter :: "GPUEffect \<Rightarrow> string \<Rightarrow> gl_float" where
  "getParameter e paramName =
     (case m_parameters e paramName of Some v \<Rightarrow> v | None \<Rightarrow> Float 0)"

definition resetParameters :: "GPUEffect \<Rightarrow> GPUEffect" where
  "resetParameters e =
     e\<lparr>m_parameters :=
         (\<lambda>n. case m_parameterDefinitions e n of
                 Some d \<Rightarrow> Some (p_defaultValue d)
               | None \<Rightarrow> m_parameters e n)\<rparr>"

definition setIntensity :: "gl_float \<Rightarrow> GPUEffect \<Rightarrow> GPUEffect" where
  "setIntensity intensity e = e\<lparr>m_intensity := glm_clamp intensity (Float 0) (Float 1)\<rparr>"

definition setEnabled :: "bool \<Rightarrow> GPUEffect \<Rightarrow> GPUEffect" where
  "setEnabled enabled e = e\<lparr>m_enabled := enabled\<rparr>"

definition isAvailable :: "GPUEffect \<Rightarrow> bool" where
  "isAvailable e = (case m_shader e of None \<Rightarrow> False | Some sh \<Rightarrow> isValid sh)"

text \<open>
  The constructors of the concrete effects (color_grade_effect.cpp, blur_effect.cpp,
  distortion_effect.cpp). Each passes \<^verbatim>\<open>nullptr\<close> as the shader to the constructor of the
  base class, and no function of the sources assigns \<open>m_shader\<close> afterwards.
\<close>

definition ColorGradeEffect_new :: GPUEffect where
  "ColorGradeEffect_new =
     defineParameter ''tint'' ''uTint'' (Float 0.5) (Float 0) (Float 1) ''float''
      (defineParameter ''temperature'' ''uTemperature'' (Float 0.5) (Float 0) (Float 1) ''float''
        (defineParameter ''intensity'' ''uIntensity'' (Float 1) (Float 0) (Float 1) ''float''
          (GPUEffect_new (ColorGradeEffect 0) ''ColorGrade'' COLOR None)))"

definition HSLEffect_new :: GPUEffect where
  "HSLEffect_new =
     defineParameter ''lightness'' ''uLightness'' (Float 0.5) (Float 0) (Float 1) ''float''
      (defineParameter ''saturation'' ''uSaturation'' (Float 0.5) (Float 0) (Float 1) ''float''
        (defineParameter ''hue'' ''uHue'' (Float 0.5) (Float 0) (Float 1) ''float''
          (defineParameter ''intensity'' ''uIntensity'' (Float 1) (Float 0) (Float 1) ''float''
            (GPUEffect_new HSLEffect ''HSL'' COLOR None))))"

definition VignetteEffect_new :: GPUEffect where
  "VignetteEffect_new =
     defineParameter ''softness'' ''uSoftness'' (Float 0.3) (Float 0) (Float 1) ''float''
      (defineParameter ''radius'' ''uRadius'' (Float 0.5) (Float 0.2) (Float 1) ''float''
        (defineParameter ''intensity'' ''uIntensity'' (Float 0.5) (Float 0) (Float 1) ''float''
          (GPUEffect_new VignetteEffect ''Vignette'' LIGHT None)))"

definition GlowEffect_new :: GPUEffect where
  "GlowEffect_new =
     defineParameter ''spread'' ''uSpread'' (Float 0.3) (Float 0) (Float 1) ''float''
      (defineParameter ''threshold'' ''uThreshold'' (Float 0.5) (Float 0) (Float 1) ''float''
        (defineParameter ''intensity'' ''uIntensity'' (Float 0.5) (Float 0) (Float 1) ''float''
          (GPUEffect_new GlowEffect ''Glow'' LIGHT None)))"

definition ChromaticAberrationEffect_new :: GPUEffect where
  "ChromaticAberrationEffect_new =
     defineParameter ''direction'' ''uDirection'' (Float 0) (Float 0) (Float 360) ''float''
      (defineParameter ''amount'' ''uAmount'' (Float 0.3) (Float 0) (Float 1) ''float''
        (defineParameter ''intensity'' ''uIntensity'' (Float 0.5) (Float 0) (Float 1) ''float''
          (GPUEffect_new ChromaticAberrationEffect ''ChromaticAberration'' DISTORTION None)))"

section \<open>Rendering one effect\<close>

text \<open>
  \<^verbatim>\<open>m_shader->setUniform(...)\<close> as the effect sees it: the write goes through the shader
  the effect holds, whose location cache it may extend. Every caller has checked that
  \<open>m_shader\<close> is not null.
\<close>

definition shader_setUniform ::
  "string \<Rightarrow> uniform_value \<Rightarrow> GPUEffect \<times> gl_state \<Rightarrow> GPUEffect \<times> gl_state" where
  "shader_setUniform n v s =
     (case m_shader (fst s) of
        None \<Rightarrow> s
      | Some sh \<Rightarrow>
          ((fst s)\<lparr>m_shader := Some (fst (setUniform n v (sh, snd s)))\<rparr>,
           snd (setUniform n v (sh, snd s))))"

definition on_gl :: "(gl_state \<Rightarrow> gl_state) \<Rightarrow> GPUEffect \<times> gl_state \<Rightarrow> GPUEffect \<times> gl_state" where
  "on_gl f s = (fst s, f (snd s))"

text \<open>
  The \<^verbatim>\<open>applyCustomUniforms\<close> overrides of blur_effect.cpp, color_grade_effect.cpp and
  distortion_effect.cpp, by dynamic class. Each override returns at once when the effect
  has no shader (the test is in \<open>applyCustomUniforms\<close> below); the base class version
  does nothing. The texel size of the blur divides by the render size, converted to
  \<^verbatim>\<open>float\<close>: for a width or height of 0 it is an infinity.
\<close>

fun customUniforms ::
  "effect_class \<Rightarrow> int \<Rightarrow> int \<Rightarrow> GPUEffect \<times> gl_state \<Rightarrow> GPUEffect \<times> gl_state" where
  "customUniforms GPUEffectBase width height s = s"
| "customUniforms (ColorGradeEffect m_lutTexture) width height s =
     (let s1 = (if m_lutTexture \<noteq> 0
                then shader_setUniform ''uLUT'' (UInt 1)
                       (on_gl (glBindTexture m_lutTexture) (on_gl (glActiveTexture 1) s))
                else s);
          s2 = shader_setUniform ''uTemperature''
                 (UFloat (getParameter (fst s1) ''temperature'')) s1
      in shader_setUniform ''uTint'' (UFloat (getParameter (fst s2) ''tint'')) s2)"
| "customUniforms (CurvesEffect m_curveTexture) width height s =
     (let s1 = (if m_curveTexture \<noteq> 0
                then shader_setUniform ''uCurveTexture'' (UInt 1)
                       (on_gl (glBindTexture m_curveTexture) (on_gl (glActiveTexture 1) s))
                else s);
          s2 = shader_setUniform ''uRedMidtone''
                 (UFloat (getParameter (fst s1) ''redMidtone'')) s1;
          s3 = shader_setUniform ''uGreenMidtone''
                 (UFloat (getParameter (fst s2) ''greenMidtone'')) s2;
          s4 = shader_setUniform ''uBlueMidtone''
                 (UFloat (getParameter (fst s3) ''blueMidtone'')) s3
      in shader_setUniform ''uLuminanceMidtone''
           (UFloat (getParameter (fst s4) ''luminanceMidtone'')) s4)"
| "customUniforms HSLEffect width height s =
     (let hueParam = getParameter (fst s) ''hue'';
          saturationParam = getParameter (fst s) ''saturation'';
          lightnessParam = getParameter (fst s) ''lightness'';
          hue = (hueParam * Float 2 - Float 1) * Float 180;
          saturation = saturationParam * Float 2 - Float 1;
          lightness = lightnessParam * Float 2 - Float 1;
          s1 = shader_setUniform ''uHue'' (UFloat hue) s;
          s2 = shader_setUniform ''uSaturation'' (UFloat saturation) s1
      in shader_setUniform ''uLightness'' (UFloat lightness) s2)"
| "customUniforms GaussianBlurEffect width height s =
     (let texelWidth = Float 1 / Float (real_of_int width);
          texelHeight = Float 1 / Float (real_of_int height);
          s1 = shader_setUniform ''uTexelSize'' (UVec2 texelWidth texelHeight) s
      in shader_setUniform ''uRadius'' (UFloat (getParameter (fst s1) ''radius'')) s1)"
| "customUniforms VignetteEffect width height s =
     (let s1 = shader_setUniform ''uRadius'' (UFloat (getParameter (fst s) ''radius'')) s;
          softness = getParameter (fst s1) ''softness''
      in shader_setUniform ''uIntensity'' (UFloat (m_intensity (fst s1) * softness)) s1)"
| "customUniforms GlowEffect width height s =
     (let threshold = getParameter (fst s) ''threshold'';
          spread = getParameter (fst s) ''spread'';
          s1 = shader_setUniform ''uThreshold'' (UFloat threshold) s
      in shader_setUniform ''uIntensity''
           (UFloat (m_intensity (fst s1) * (Float 1 + spread * Float 2))) s1)"
| "customUniforms ChromaticAberrationEffect width height s =
     (let amount = getParameter (fst s) ''amount'';
          direction = getParameter (fst s) ''direction'' * Float 3.14159 / Float 180
      in shader_setUniform ''uOffset''
           (UVec2 (glm_cos direction * amount * Float 0.02)
                  (glm_sin direction * amount * Float 0.02)) s)"
| "customUniforms (GlitchEffect m_time) width height s =
     (let s1 = shader_setUniform ''uAmount'' (UFloat (getParameter (fst s) ''amount'')) s;
          s2 = shader_setUniform ''uFrequency''
                 (UFloat (getParameter (fst s1) ''frequency'')) s1
      in shader_setUniform ''uTime'' (UFloat m_time) s2)"
| "customUniforms PosterizeEffect width height s =
     shader_setUniform ''uLevels'' (UFloat (getParameter (fst s) ''levels'')) s"
| "customUniforms InvertEffect width height s = s"
| "customUniforms GrayscaleEffect width height s = s"

definition applyCustomUniforms ::
  "GLuint \<Rightarrow> int \<Rightarrow> int \<Rightarrow> GPUEffect \<times> gl_state \<Rightarrow> GPUEffect \<times> gl_state" where
  "applyCustomUniforms inputTexture width height s =
     (if m_class (fst s) \<noteq> GPUEffectBase \<and> m_shader (fst s) = None then s
      else customUniforms (m_class (fst s)) width height s)"

text \<open>
  \<^verbatim>\<open>GPUEffect::initializeQuad\<close>: one vertex array and two buffers are generated and
  filled, and the vertex array is unbound again.
\<close>

definition initializeQuad :: "gl_state \<Rightarrow> gl_state" where
  "initializeQuad gl =
     (if s_quadInitialized (misc gl) then gl
      else gl\<lparr>misc :=
             (let m = misc gl;
                  vao = fresh_name (vertex_arrays m);
                  vbo = fresh_name (buffers m);
                  ebo = fresh_name (buffers m @ [vbo])
              in m\<lparr>vertex_arrays := vertex_arrays m @ [vao],
                   buffers := buffers m @ [vbo, ebo],
                   bound_vertex_array := 0,
                   s_quadVAO := vao, s_quadVBO := vbo, s_quadInitialized := True\<rparr>)\<rparr>)"

definition renderFullscreenQuad :: "gl_state \<Rightarrow> gl_state" where
  "renderFullscreenQuad gl = glDrawArrays gl"

text \<open>\<^verbatim>\<open>GPUEffect::apply\<close> (gpu_effect.cpp, lines 66-111).\<close>

definition GPUEffect_apply ::
  "GPUEffect \<Rightarrow> GLuint \<Rightarrow> GLuint \<Rightarrow> int \<Rightarrow> int \<Rightarrow> gl_state \<Rightarrow> bool \<times> GPUEffect \<times> gl_state" where
  "GPUEffect_apply e inputTexture outputFramebuffer width height gl =
     (if \<not> isAvailable e then (False, e, gl)
      else if \<not> m_enabled e then (True, e, gl)
      else
        (let gl1 = (if \<not> s_quadInitialized (misc gl) then initializeQuad gl else gl);
             gl2 = (case m_shader e of None \<Rightarrow> gl1 | Some sh \<Rightarrow> use sh gl1);
             gl3 = glBindFramebuffer outputFramebuffer gl2;
             gl4 = glViewport width height gl3;
             gl5 = glActiveTexture 0 gl4;
             gl6 = glBindTexture inputTexture gl5;
             s7 = shader_setUniform ''uTexture'' (UInt 0) (e, gl6);
             s8 = on_gl (glBindVertexArray (s_quadVAO (misc (snd s7)))) s7;
             s9 = applyCustomUniforms inputTexture width height s8;
             s10 = shader_setUniform ''uIntensity'' (UFloat (m_intensity (fst s9))) s9;
             gl11 = renderFullscreenQuad (snd s10);
             gl12 = glBindVertexArray 0 gl11;
             gl13 = glBindFramebuffer 0 gl12;
             gl14 = glBindTexture 0 gl13
         in (True, fst s10, gl14)))"

section \<open>GPURenderer\<close>

record RenderConfig =
  renderWidth :: int
  renderHeight :: int
  outputWidth :: int
  outputHeight :: int
  useMultisampling :: bool
  sampleCount :: int
  enableCache :: bool
  enableProfiling :: bool

record RenderStats =
  gpuTimeMs :: gl_float
  cpuTimeMs :: gl_float
  totalTimeMs :: gl_float
  framesPerSecond :: int
  gpuMemoryUsedMB :: gl_float
  textureCount :: int
  framebufferCount :: int

text \<open>
  The renderer. \<open>m_context\<close> is the \<^verbatim>\<open>unique_ptr\<close> to the context (\<open>None\<close> before
  \<^verbatim>\<open>initialize\<close>); \<open>m_effects\<close> is the name-to-effect map and \<open>m_effectOrder\<close> the
  execution order. The members the sources declare and never use are left out.
\<close>

record GPURenderer =
  m_context :: "OpenGLContext option"
  m_config :: RenderConfig
  m_stats :: RenderStats
  m_effects :: "string \<rightharpoonup> GPUEffect"
  m_effectOrder :: "string list"
  m_intermediateFramebuffers :: "GLuint list"
  m_profilingEnabled :: bool
  m_gpuTimeHistory :: "gl_float list"
  m_cpuTimeHistory :: "gl_float list"

definition RenderConfig_default :: RenderConfig where
  "RenderConfig_default =
     \<lparr>renderWidth = 1920, renderHeight = 1080, outputWidth = 1920, outputHeight = 1080,
      useMultisampling = True, sampleCount = 4, enableCache = True, enableProfiling = False\<rparr>"

definition RenderStats_default :: RenderStats where
  "RenderStats_default =
     \<lparr>gpuTimeMs = Float 0, cpuTimeMs = Float 0, totalTimeMs = Float 0, framesPerSecond = 0,
      gpuMemoryUsedMB = Float 0, textureCount = 0, framebufferCount = 0\<rparr>"

definition GPURenderer_new :: GPURenderer where
  "GPURenderer_new =
     \<lparr>m_context = None, m_config = RenderConfig_default, m_stats = RenderStats_default,
      m_effects = Map.empty, m_effectOrder = [], m_intermediateFramebuffers = [],
      m_profilingEnabled = False, m_gpuTimeHistory = [], m_cpuTimeHistory = []\<rparr>"

definition isInitialized :: "GPURenderer \<Rightarrow> bool" where
  "isInitialized r = (case m_context r of None \<Rightarrow> False | Some c \<Rightarrow> context_isInitialized c)"

text \<open>\<^verbatim>\<open>GPURenderer::addEffect\<close> (gpu_renderer.cpp, lines 58-76); the argument is a
  \<^verbatim>\<open>shared_ptr\<close>, \<open>None\<close> being the null pointer.\<close>

definition addEffect :: "GPUEffect option \<Rightarrow> GPURenderer \<Rightarrow> bool \<times> GPURenderer" where
  "addEffect effect r =
     (case effect of
        None \<Rightarrow> (False, r)
      | Some e \<Rightarrow>
          if m_name e \<noteq> [] then (False, r)
          else if m_effects r (m_name e) \<noteq> None then (False, r)
          else (True, r\<lparr>m_effects := (m_effects r)(m_name e \<mapsto> e),
                        m_effectOrder := m_effectOrder r @ [m_name e]\<rparr>))"

definition removeEffect :: "string \<Rightarrow> GPURenderer \<Rightarrow> bool \<times> GPURenderer" where
  "removeEffect effectName r =
     (if m_effects r effectName = None then (False, r)
      else (True, r\<lparr>m_effects := (m_effects r)(effectName := None),
                    m_effectOrder := remove1 effectName (m_effectOrder r)\<rparr>))"

definition getEffect :: "GPURenderer \<Rightarrow> string \<Rightarrow> GPUEffect option" where
  "getEffect r effectName = m_effects r effectName"

definition hasEffect :: "GPURenderer \<Rightarrow> string \<Rightarrow> bool" where
  "hasEffect r effectName = (m_effects r effectName \<noteq> None)"

definition getEffectNames :: "GPURenderer \<Rightarrow> string list" where
  "getEffectNames r = m_effectOrder r"

definition clearEffects :: "GPURenderer \<Rightarrow> GPURenderer" where
  "clearEffects r = r\<lparr>m_effects := Map.empty, m_effectOrder := []\<rparr>"

definition setEffectEnabled :: "string \<Rightarrow> bool \<Rightarrow> GPURenderer \<Rightarrow> bool \<times> GPURenderer" where
  "setEffectEnabled effectName enabled r =
     (case getEffect r effectName of
        None \<Rightarrow> (False, r)
      | Some e \<Rightarrow> (True, r\<lparr>m_effects := (m_effects r)(effectName \<mapsto> setEnabled enabled e)\<rparr>))"

text \<open>
  The functions below dereference \<open>m_context\<close> and look effects up with
  \<^verbatim>\<open>m_effects[name]\<close> followed by a member call; a null context or a name that is in the
  order list but not in the map makes the C++ dereference a null pointer. That outcome
  is the result \<open>None\<close>.
\<close>

definition createIntermediateFramebuffer ::
  "GPURenderer \<Rightarrow> gl_state \<Rightarrow> (GLuint \<times> GPURenderer \<times> gl_state) option" where
  "createIntermediateFramebuffer r gl =
     (case m_context r of
        None \<Rightarrow> None
      | Some c \<Rightarrow>
          (let res = createFramebuffer (renderWidth (m_config r)) (renderHeight (m_config r))
                       GL_RGBA gl;
               fbo = fst res
           in Some (fbo,
                    if fbo \<noteq> 0
                    then r\<lparr>m_intermediateFramebuffers := m_intermediateFramebuffers r @ [fbo]\<rparr>
                    else r,
                    snd res)))"

text \<open>
  \<^verbatim>\<open>GPURenderer::applyEffectChain\<close> (gpu_renderer.cpp, lines 230-259). \<open>chain_stage\<close> is
  the body of its loop for one effect name (a \<^verbatim>\<open>continue\<close> returns the state reached so
  far), \<open>applyEffectChain_loop\<close> the loop over the names still to visit.
\<close>

definition chain_stage ::
  "string \<Rightarrow> GLuint \<Rightarrow> GPURenderer \<Rightarrow> gl_state \<Rightarrow> (GLuint \<times> GPURenderer \<times> gl_state) option"
  where
  "chain_stage effectName currentTexture r gl =
     (case m_effects r effectName of
        None \<Rightarrow> None
      | Some effect \<Rightarrow>
          if \<not> m_enabled effect then Some (currentTexture, r, gl)
          else
            (case createIntermediateFramebuffer r gl of
               None \<Rightarrow> None
             | Some (fbo, r1, gl1) \<Rightarrow>
                 if fbo = 0 then Some (currentTexture, r1, gl1)
                 else
                   (let a = GPUEffect_apply effect currentTexture fbo
                              (renderWidth (m_config r1)) (renderHeight (m_config r1)) gl1;
                        r2 = r1\<lparr>m_effects := (m_effects r1)(effectName \<mapsto> fst (snd a))\<rparr>;
                        gl2 = snd (snd a)
                    in if \<not> fst a
                       then Some (currentTexture, r2, deleteFramebuffer fbo gl2)
                       else Some (fst (getFramebufferTexture fbo gl2), r2,
                                  snd (getFramebufferTexture fbo gl2)))))"

fun applyEffectChain_loop ::
  "string list \<Rightarrow> GLuint \<Rightarrow> GPURenderer \<Rightarrow> gl_state \<Rightarrow> (GLuint \<times> GPURenderer \<times> gl_state) option"
  where
  "applyEffectChain_loop [] currentTexture r gl = Some (currentTexture, r, gl)"
| "applyEffectChain_loop (effectName # rest) currentTexture r gl =
     (case chain_stage effectName currentTexture r gl of
        None \<Rightarrow> None
      | Some (currentTexture', r', gl') \<Rightarrow> applyEffectChain_loop rest currentTexture' r' gl')"

definition applyEffectChain ::
  "GPURenderer \<Rightarrow> gl_state \<Rightarrow> GLuint \<Rightarrow> (GLuint \<times> GPURenderer \<times> gl_state) option" where
  "applyEffectChain r gl inputTexture =
     applyEffectChain_loop (m_effectOrder r) inputTexture r gl"

text \<open>
  \<^verbatim>\<open>GPURenderer::updateStatistics\<close> (gpu_renderer.cpp, lines 301-328). The averages are
  sums over the history divided by its length. The frame rate is cast to \<^verbatim>\<open>int\<close>; where
  that conversion is undefined the function has no defined result.
\<close>

definition average :: "gl_float list \<Rightarrow> gl_float" where
  "average xs = foldl (+) (Float 0) xs / Float (real (length xs))"

definition updateStatistics :: "GPURenderer \<Rightarrow> GPURenderer option" where
  "updateStatistics r =
     (let st = m_stats r;
          st1 = (if m_gpuTimeHistory r \<noteq> [] then st\<lparr>gpuTimeMs := average (m_gpuTimeHistory r)\<rparr>
                 else st);
          st2 = (if m_cpuTimeHistory r \<noteq> [] then st1\<lparr>cpuTimeMs := average (m_cpuTimeHistory r)\<rparr>
                 else st1);
          st3 = st2\<lparr>totalTimeMs := gpuTimeMs st2 + cpuTimeMs st2\<rparr>;
          n = int (length (m_intermediateFramebuffers r))
      in if Float 0 < totalTimeMs st3
         then (case static_cast_int (Float 1000 / totalTimeMs st3) of
                 None \<Rightarrow> None
               | Some fps \<Rightarrow>
                   Some (r\<lparr>m_stats := st3\<lparr>framesPerSecond := fps, textureCount := n,
                                           framebufferCount := n\<rparr>\<rparr>))
         else Some (r\<lparr>m_stats := st3\<lparr>textureCount := n, framebufferCount := n\<rparr>\<rparr>))"

definition beginProfiling :: "GPURenderer \<Rightarrow> GPURenderer" where
  "beginProfiling r = r"

definition endProfiling :: "GPURenderer \<Rightarrow> GPURenderer option" where
  "endProfiling r = updateStatistics r"

text \<open>\<^verbatim>\<open>GPURenderer::renderFrame\<close> (gpu_renderer.cpp, lines 132-167).\<close>

definition renderFrame ::
  "GPURenderer \<Rightarrow> gl_state \<Rightarrow> GLuint \<Rightarrow> GLuint \<Rightarrow> (bool \<times> GPURenderer \<times> gl_state) option" where
  "renderFrame r gl inputTexture outputFramebuffer =
     (if \<not> isInitialized r then Some (False, r, gl)
      else
        (let r0 = (if m_profilingEnabled r then beginProfiling r else r);
             mc = makeCurrent gl
         in if \<not> fst mc then Some (False, r0, snd mc)
            else
              (case applyEffectChain r0 (snd mc) inputTexture of
                 None \<Rightarrow> None
               | Some (outputTexture, r1, gl1) \<Rightarrow>
                   (let gl2 = (if outputFramebuffer \<noteq> 0
                               then clearScreen (snd (bindFramebuffer outputFramebuffer gl1))
                               else gl1);
                        gl3 = snd (releaseContext gl2)
                    in if m_profilingEnabled r1
                       then (case endProfiling r1 of
                               None \<Rightarrow> None
                             | Some r2 \<Rightarrow> Some (True, r2, gl3))
                       else Some (True, r1, gl3)))))"

text \<open>\<^verbatim>\<open>GPURenderer::renderToTexture\<close> (gpu_renderer.cpp, lines 169-197).\<close>

definition renderToTexture ::
  "GPURenderer \<Rightarrow> gl_state \<Rightarrow> GLuint \<Rightarrow> (GLuint \<times> GPURenderer \<times> gl_state) option" where
  "renderToTexture r gl inputTexture =
     (if \<not> isInitialized r then Some (0, r, gl)
      else
        (let mc = makeCurrent gl
         in if \<not> fst mc then Some (0, r, snd mc)
            else
              (case createIntermediateFramebuffer r (snd mc) of
                 None \<Rightarrow> None
               | Some (fbo, r1, gl1) \<Rightarrow>
                   if fbo = 0 then Some (0, r1, gl1)
                   else
                     (case applyEffectChain r1 gl1 inputTexture of
                        None \<Rightarrow> None
                      | Some (chainOutput, r2, gl2) \<Rightarrow>
                          (let outputTexture = fst (getFramebufferTexture fbo gl2);
                               gl3 = snd (releaseContext (snd (getFramebufferTexture fbo gl2)))
                           in Some (outputTexture, r2, gl3))))))"

section \<open>Concrete states\<close>

text \<open>
  A context right after creation: no objects, nothing bound, nothing drawn. The driver
  accepts every framebuffer configuration and every \<^verbatim>\<open>eglMakeCurrent\<close>; program 1 is a
  linked program with the active uniforms listed.
\<close>

definition example_driver :: gl_driver where
  "example_driver =
     \<lparr>program_uniforms =
        (\<lambda>p. if p = 1 then [''uTexture'', ''uIntensity'', ''uHue'', ''uSaturation'',
                             ''uLightness'', ''uOffset'', ''uRadius'', ''uTemperature'',
                             ''uTint'']
              else []),
      fb_supported = True, egl_make_current_ok = True\<rparr>"

definition gl_initial :: gl_state where
  "gl_initial =
     \<lparr>names = \<lparr>framebuffers = [], textures = [], renderbuffers = []\<rparr>,
      bindings = \<lparr>bound_framebuffer = 0, active_unit = 0, bound_texture = (\<lambda>u. 0),
                  bound_renderbuffer = 0, current_program = 0\<rparr>,
      objects = \<lparr>tex_size = (\<lambda>t. (0, 0)), rb_size = (\<lambda>r. (0, 0)),
                 color_attachment = (\<lambda>f. 0), depth_attachment = (\<lambda>f. 0)\<rparr>,
      tex_image = External, uniforms = (\<lambda>p. Map.empty), draws = [], clears = [],
      driver = example_driver,
      misc = \<lparr>vertex_arrays = [], buffers = [], bound_vertex_array = 0, viewport = (0, 0),
              egl_current = False, s_quadInitialized = False, s_quadVAO = 0, s_quadVBO = 0\<rparr>\<rparr>"

definition example_shader :: ShaderProgram where
  "example_shader = \<lparr>m_programId = 1, m_uniformLocations = Map.empty\<rparr>"

definition example_context :: OpenGLContext where
  "example_context =
     \<lparr>ctx_display = 1, ctx_context = 1, ctx_surface = 1, ctx_width = 64, ctx_height = 64\<rparr>"

section \<open>Notions used in the statements\<close>

text \<open>A render-target size and driver for which \<^verbatim>\<open>createFramebuffer\<close> can succeed.\<close>

definition framebuffer_config_ok :: "int \<Rightarrow> int \<Rightarrow> gl_state \<Rightarrow> bool" where
  "framebuffer_config_ok w h gl = (0 < w \<and> 0 < h \<and> fb_supported (driver gl))"

text \<open>The program of the shader an effect holds (0 when it holds none).\<close>

definition shader_program :: "GPUEffect \<Rightarrow> GLuint" where
  "shader_program e = (case m_shader e of None \<Rightarrow> 0 | Some sh \<Rightarrow> m_programId sh)"

text \<open>
  The location cache of a shader only ever receives what \<^verbatim>\<open>glGetUniformLocation\<close>
  returned for the shader's own program: every cached entry is the driver's answer.
\<close>

definition cache_consistent :: "gl_driver \<Rightarrow> GPUEffect \<Rightarrow> bool" where
  "cache_consistent d e =
     (\<forall>sh n l. m_shader e = Some sh \<longrightarrow> m_uniformLocations sh n = Some l \<longrightarrow>
        l = location_of (program_uniforms d (m_programId sh)) n)"

text \<open>The effect's shader is compiled, in use, and its cache is consistent.\<close>

definition bound_to :: "GLuint \<Rightarrow> GPUEffect \<times> gl_state \<Rightarrow> bool" where
  "bound_to p s =
     (p \<noteq> 0 \<and> m_shader (fst s) \<noteq> None \<and> shader_program (fst s) = p \<and>
      current_program (bindings (snd s)) = p \<and>
      cache_consistent (driver (snd s)) (fst s))"

text \<open>
  What a step that only sets uniforms (and binds textures to units other than 0, or a
  vertex array) leaves alone: the effect apart from its shader's cache, the program in
  use, the bound framebuffer, the texture on unit 0, and the objects, images and logs of
  the GL state.
\<close>

definition uniform_step :: "GPUEffect \<times> gl_state \<Rightarrow> GPUEffect \<times> gl_state \<Rightarrow> bool" where
  "uniform_step s s' =
     ((fst s')\<lparr>m_shader := None\<rparr> = (fst s)\<lparr>m_shader := None\<rparr> \<and>
      shader_program (fst s') = shader_program (fst s) \<and>
      (m_shader (fst s') = None) = (m_shader (fst s) = None) \<and>
      (cache_consistent (driver (snd s)) (fst s) \<longrightarrow>
         cache_consistent (driver (snd s)) (fst s')) \<and>
      names (snd s') = names (snd s) \<and> objects (snd s') = objects (snd s) \<and>
      tex_image (snd s') = tex_image (snd s) \<and> draws (snd s') = draws (snd s) \<and>
      clears (snd s') = clears (snd s) \<and> driver (snd s') = driver (snd s) \<and>
      current_program (bindings (snd s')) = current_program (bindings (snd s)) \<and>
      bound_framebuffer (bindings (snd s')) = bound_framebuffer (bindings (snd s)) \<and>
      bound_texture (bindings (snd s')) 0 = bound_texture (bindings (snd s)) 0)"

text \<open>
  Two stages of \<^verbatim>\<open>GPUEffect::apply\<close> for an available, enabled effect, named so that the
  statements can refer to them: the GL state once the quad, the program, the output
  framebuffer and the input texture are bound (lines 76-90), and the effect and GL state
  at the moment the draw call is issued (after line 100).
\<close>

definition apply_bindings ::
  "GPUEffect \<Rightarrow> GLuint \<Rightarrow> GLuint \<Rightarrow> int \<Rightarrow> int \<Rightarrow> gl_state \<Rightarrow> gl_state" where
  "apply_bindings e inputTexture outputFramebuffer width height gl =
     (let gl1 = (if \<not> s_quadInitialized (misc gl) then initializeQuad gl else gl);
          gl2 = (case m_shader e of None \<Rightarrow> gl1 | Some sh \<Rightarrow> use sh gl1);
          gl3 = glBindFramebuffer outputFramebuffer gl2;
          gl4 = glViewport width height gl3;
          gl5 = glActiveTexture 0 gl4
      in glBindTexture inputTexture gl5)"

definition apply_at_draw ::
  "GPUEffect \<Rightarrow> GLuint \<Rightarrow> GLuint \<Rightarrow> int \<Rightarrow> int \<Rightarrow> gl_state \<Rightarrow> GPUEffect \<times> gl_state" where
  "apply_at_draw e inputTexture outputFramebuffer width height gl =
     (let s7 = shader_setUniform ''uTexture'' (UInt 0)
                 (e, apply_bindings e inputTexture outputFramebuffer width height gl);
          s8 = on_gl (glBindVertexArray (s_quadVAO (misc (snd s7)))) s7;
          s9 = applyCustomUniforms inputTexture width height s8
      in shader_setUniform ''uIntensity'' (UFloat (m_intensity (fst s9))) s9)"

text \<open>\<^verbatim>\<open>glUniform*\<close> at the location of a name, on the store of one program: no write when
  the name is not an active uniform.\<close>

definition write_uniform ::
  "string list \<Rightarrow> string \<Rightarrow> uniform_value \<Rightarrow> (GLint \<rightharpoonup> uniform_value) \<Rightarrow> (GLint \<rightharpoonup> uniform_value)"
  where
  "write_uniform active n v u =
     (if location_of active n = - 1 then u else u(location_of active n \<mapsto> v))"

text \<open>
  Effect objects. \<open>example_base\<close> is an effect of the base class built with the compiled
  example shader, which the public constructor of \<^verbatim>\<open>GPUEffect\<close> accepts. \<open>example_hsl\<close>,
  \<open>example_chromatic\<close> and \<open>ColorGradeEffect_new\<close> are concrete effects as their
  constructors build them, with the hue set to 0.75 and the amount set to 1.
  \<open>assign_shader\<close> is the assignment the note in the constructor of the colour grade
  effect asks for ("Shader needs to be created separately and assigned") and no function
  of the sources performs; \<open>example_vignette\<close> is a vignette with the default parameters
  (intensity 1, softness 0.3) after such an assignment.
\<close>

definition example_base :: GPUEffect where
  "example_base = GPUEffect_new GPUEffectBase ''Base'' COLOR (Some example_shader)"

definition example_hsl :: GPUEffect where
  "example_hsl = snd (setParameter ''hue'' (Float 0.75) HSLEffect_new)"

definition example_chromatic :: GPUEffect where
  "example_chromatic = snd (setParameter ''amount'' (Float 1) ChromaticAberrationEffect_new)"

definition assign_shader :: "ShaderProgram \<Rightarrow> GPUEffect \<Rightarrow> GPUEffect" where
  "assign_shader sh e = e\<lparr>m_shader := Some sh\<rparr>"

definition example_vignette :: GPUEffect where
  "example_vignette = assign_shader example_shader VignetteEffect_new"

text \<open>
  An effect of the chain is applied when it is enabled and its shader compiled. The
  effects of the chain in execution order, and the programs of those that are applied.
\<close>

definition applied :: "GPUEffect \<Rightarrow> bool" where
  "applied e = (m_enabled e \<and> isAvailable e)"

definition chain_effects :: "GPURenderer \<Rightarrow> GPUEffect list" where
  "chain_effects r = List.map_filter (m_effects r) (m_effectOrder r)"

definition applied_programs :: "(string \<rightharpoonup> GPUEffect) \<Rightarrow> string list \<Rightarrow> GLuint list" where
  "applied_programs m ns = map shader_program (filter applied (List.map_filter m ns))"

text \<open>
  The renderer and GL state in which a stage of the chain can run: there is a context,
  the current texture is a live texture, and framebuffers of the render size can be
  created.
\<close>

definition chain_ready :: "GLuint \<Rightarrow> GPURenderer \<Rightarrow> gl_state \<Rightarrow> bool" where
  "chain_ready currentTexture r gl =
     (m_context r \<noteq> None \<and> currentTexture \<in> set (textures (names gl)) \<and>
      framebuffer_config_ok (renderWidth (m_config r)) (renderHeight (m_config r)) gl)"

text \<open>
  What the chain does to objects that existed before it ran: nothing. Every framebuffer
  and texture that was live stays live, with its attachment and its content, and no draw
  call that is added targets a framebuffer that was live.
\<close>

definition chain_extends :: "gl_state \<Rightarrow> gl_state \<Rightarrow> bool" where
  "chain_extends gl gl' =
     (driver gl' = driver gl \<and> clears gl' = clears gl \<and>
      set (framebuffers (names gl)) \<subseteq> set (framebuffers (names gl')) \<and>
      (\<forall>f \<in> set (framebuffers (names gl)).
         color_attachment (objects gl') f = color_attachment (objects gl) f) \<and>
      set (textures (names gl)) \<subseteq> set (textures (names gl')) \<and>
      (\<forall>t \<in> set (textures (names gl)). tex_image gl' t = tex_image gl t) \<and>
      (\<exists>ds. draws gl' = draws gl @ ds \<and>
            (\<forall>d \<in> set ds. d_target d \<notin> set (framebuffers (names gl)))))"

text \<open>
  A renderer with a context and three effects in the order off, broken, on: the example
  base effect disabled, an HSL effect as its constructor builds it (enabled, its shader
  never compiled), and the example base effect. The GL state has two live textures, the
  input frame 5 and texture 9, and one live framebuffer 7 whose colour attachment is
  texture 9: the caller's output target.
\<close>

definition example_renderer :: GPURenderer where
  "example_renderer =
     GPURenderer_new
       \<lparr>m_context := Some example_context,
        m_effects := [''off'' \<mapsto> setEnabled False example_base,
                      ''broken'' \<mapsto> HSLEffect_new,
                      ''on'' \<mapsto> example_base],
        m_effectOrder := [''off'', ''broken'', ''on'']\<rparr>"

definition gl_with_input :: gl_state where
  "gl_with_input =
     gl_initial
       \<lparr>names := (names gl_initial)\<lparr>textures := [5, 9], framebuffers := [7]\<rparr>,
        objects := (objects gl_initial)
          \<lparr>tex_size := (tex_size (objects gl_initial))(5 := (64, 64), 9 := (64, 64)),
           color_attachment := (color_attachment (objects gl_initial))(7 := 9)\<rparr>\<rparr>"

text \<open>
  The renderer the public interface yields for a chain with one failing effect: a new
  renderer that has its context, to which \<^verbatim>\<open>addEffect\<close> has added an effect of the base
  class with the empty name and no shader.
\<close>

definition unnamed_effect :: GPUEffect where
  "unnamed_effect = GPUEffect_new GPUEffectBase [] COLOR None"

definition failing_renderer :: GPURenderer where
  "failing_renderer =
     snd (addEffect (Some unnamed_effect) (GPURenderer_new\<lparr>m_context := Some example_context\<rparr>))"

section \<open>Floating-point arithmetic\<close>

lemmas float_ops = plus_gl_float_def minus_gl_float_def uminus_gl_float_def times_gl_float_def
  divide_gl_float_def less_gl_float_def less_eq_gl_float_def float_eq_def

lemma float_arith [simp]:
  "Float x + Float y = Float (x + y)"
  "Float x - Float y = Float (x - y)"
  "Float x * Float y = Float (x * y)"
  "y \<noteq> 0 \<Longrightarrow> Float x / Float y = Float (x / y)"
  "(Float x < Float y) = (x < y)"
  "(Float x \<le> Float y) = (x \<le> y)"
  by (auto simp: float_ops)

lemma float_nan [simp]:
  "(NaN < a) = False" "(a < NaN) = False" "(NaN \<le> a) = False" "(a \<le> NaN) = False"
  "float_eq NaN a = False" "float_eq a NaN = False"
  by (cases a; simp add: float_ops)+

lemma float_inf [simp]:
  "(Float x < PInf) = True" "(PInf < a) = False" "(Float x \<le> PInf) = True"
  "(NInf < Float x) = True" "(a < NInf) = False" "(NInf \<le> Float x) = True"
  "(PInf \<le> Float x) = False" "(Float x \<le> NInf) = False"
  by (cases a; simp add: float_ops)+

text \<open>On numbers \<^verbatim>\<open>glm::clamp\<close> is the clamp of the reals; on values other than NaN it is
  the clamp of the order of the floats; it lets NaN through.\<close>

lemma glm_clamp_numbers:
  "glm_clamp (Float x) (Float lo) (Float hi) = Float (min (max x lo) hi)"
  by (simp add: glm_clamp_def glm_min_def glm_max_def min_def max_def)

lemma glm_clamp_ordered:
  assumes "v \<noteq> NaN" "lo \<noteq> NaN" "hi \<noteq> NaN"
  shows "glm_clamp v lo hi = min (max v lo) hi"
  using assms
  by (cases v; cases lo; cases hi;
      simp add: glm_clamp_def glm_min_def glm_max_def min_def max_def float_ops)

lemma glm_clamp_not_nan:
  assumes "v \<noteq> NaN"
  shows "glm_clamp v lo hi \<noteq> NaN"
  using assms
  by (cases "lo = NaN"; cases "hi = NaN"; simp add: glm_clamp_def glm_min_def glm_max_def)

lemma glm_clamp_nan: "glm_clamp NaN lo hi = NaN"
  by (simp add: glm_clamp_def glm_min_def glm_max_def)

section \<open>Fresh names\<close>

lemma le_foldr_max: "x \<in> set xs \<Longrightarrow> x \<le> foldr max xs (0::nat)"
  by (induction xs) auto

lemma fresh_name_notin [simp]: "fresh_name xs \<notin> set xs"
proof
  assume "fresh_name xs \<in> set xs"
  then have "fresh_name xs \<le> foldr max xs 0" by (rule le_foldr_max)
  then show False by (simp add: fresh_name_def)
qed

lemma fresh_name_nonzero [simp]: "fresh_name xs \<noteq> 0" "0 < fresh_name xs"
  by (simp_all add: fresh_name_def)

lemma fresh_name_neq: "x \<in> set xs \<Longrightarrow> fresh_name xs \<noteq> x" "x \<in> set xs \<Longrightarrow> x \<noteq> fresh_name xs"
  using fresh_name_notin [of xs] by auto

lemma removeAll_fresh_name [simp]: "removeAll (fresh_name xs) (xs @ [fresh_name xs]) = xs"
  by (simp add: removeAll_id)

section \<open>What each GL call changes\<close>

text \<open>
  For every call of the model: the part of the state it writes, and that it leaves the
  rest alone. The later proofs use these equations instead of unfolding the calls.
\<close>

lemma glBindFramebuffer_state [simp]:
  "bindings (glBindFramebuffer f gl) = (bindings gl)\<lparr>bound_framebuffer := f\<rparr>"
  "names (glBindFramebuffer f gl) = names gl"
  "objects (glBindFramebuffer f gl) = objects gl"
  "tex_image (glBindFramebuffer f gl) = tex_image gl"
  "uniforms (glBindFramebuffer f gl) = uniforms gl"
  "draws (glBindFramebuffer f gl) = draws gl"
  "clears (glBindFramebuffer f gl) = clears gl"
  "driver (glBindFramebuffer f gl) = driver gl"
  "misc (glBindFramebuffer f gl) = misc gl"
  by (simp_all add: glBindFramebuffer_def)

lemma glActiveTexture_state [simp]:
  "bindings (glActiveTexture u gl) = (bindings gl)\<lparr>active_unit := u\<rparr>"
  "names (glActiveTexture u gl) = names gl"
  "objects (glActiveTexture u gl) = objects gl"
  "tex_image (glActiveTexture u gl) = tex_image gl"
  "uniforms (glActiveTexture u gl) = uniforms gl"
  "draws (glActiveTexture u gl) = draws gl"
  "clears (glActiveTexture u gl) = clears gl"
  "driver (glActiveTexture u gl) = driver gl"
  "misc (glActiveTexture u gl) = misc gl"
  by (simp_all add: glActiveTexture_def)

lemma glBindTexture_state [simp]:
  "bindings (glBindTexture t gl) = (bindings gl)
       \<lparr>bound_texture := (bound_texture (bindings gl))(active_unit (bindings gl) := t)\<rparr>"
  "names (glBindTexture t gl) = names gl"
  "objects (glBindTexture t gl) = objects gl"
  "tex_image (glBindTexture t gl) = tex_image gl"
  "uniforms (glBindTexture t gl) = uniforms gl"
  "draws (glBindTexture t gl) = draws gl"
  "clears (glBindTexture t gl) = clears gl"
  "driver (glBindTexture t gl) = driver gl"
  "misc (glBindTexture t gl) = misc gl"
  by (simp_all add: glBindTexture_def)

lemma glBindRenderbuffer_state [simp]:
  "bindings (glBindRenderbuffer rb gl) = (bindings gl)\<lparr>bound_renderbuffer := rb\<rparr>"
  "names (glBindRenderbuffer rb gl) = names gl"
  "objects (glBindRenderbuffer rb gl) = objects gl"
  "tex_image (glBindRenderbuffer rb gl) = tex_image gl"
  "uniforms (glBindRenderbuffer rb gl) = uniforms gl"
  "draws (glBindRenderbuffer rb gl) = draws gl"
  "clears (glBindRenderbuffer rb gl) = clears gl"
  "driver (glBindRenderbuffer rb gl) = driver gl"
  "misc (glBindRenderbuffer rb gl) = misc gl"
  by (simp_all add: glBindRenderbuffer_def)

lemma glUseProgram_state [simp]:
  "bindings (glUseProgram p gl) = (bindings gl)\<lparr>current_program := p\<rparr>"
  "names (glUseProgram p gl) = names gl"
  "objects (glUseProgram p gl) = objects gl"
  "tex_image (glUseProgram p gl) = tex_image gl"
  "uniforms (glUseProgram p gl) = uniforms gl"
  "draws (glUseProgram p gl) = draws gl"
  "clears (glUseProgram p gl) = clears gl"
  "driver (glUseProgram p gl) = driver gl"
  "misc (glUseProgram p gl) = misc gl"
  by (simp_all add: glUseProgram_def)

lemma glBindVertexArray_state [simp]:
  "misc (glBindVertexArray v gl) = (misc gl)\<lparr>bound_vertex_array := v\<rparr>"
  "names (glBindVertexArray v gl) = names gl"
  "bindings (glBindVertexArray v gl) = bindings gl"
  "objects (glBindVertexArray v gl) = objects gl"
  "tex_image (glBindVertexArray v gl) = tex_image gl"
  "uniforms (glBindVertexArray v gl) = uniforms gl"
  "draws (glBindVertexArray v gl) = draws gl"
  "clears (glBindVertexArray v gl) = clears gl"
  "driver (glBindVertexArray v gl) = driver gl"
  by (simp_all add: glBindVertexArray_def)

lemma glViewport_state [simp]:
  "misc (glViewport w h gl) = (misc gl)\<lparr>viewport := (w, h)\<rparr>"
  "names (glViewport w h gl) = names gl"
  "bindings (glViewport w h gl) = bindings gl"
  "objects (glViewport w h gl) = objects gl"
  "tex_image (glViewport w h gl) = tex_image gl"
  "uniforms (glViewport w h gl) = uniforms gl"
  "draws (glViewport w h gl) = draws gl"
  "clears (glViewport w h gl) = clears gl"
  "driver (glViewport w h gl) = driver gl"
  by (simp_all add: glViewport_def)

lemma glGen_result [simp]:
  "fst (glGenFramebuffers gl) = fresh_name (framebuffers (names gl))"
  "fst (glGenTextures gl) = fresh_name (textures (names gl))"
  "fst (glGenRenderbuffers gl) = fresh_name (renderbuffers (names gl))"
  by (simp_all add: glGenFramebuffers_def glGenTextures_def glGenRenderbuffers_def Let_def)

lemma glGenFramebuffers_state [simp]:
  "names (snd (glGenFramebuffers gl)) = (names gl)
       \<lparr>framebuffers := framebuffers (names gl) @ [fresh_name (framebuffers (names gl))]\<rparr>"
  "objects (snd (glGenFramebuffers gl)) = (objects gl)
       \<lparr>color_attachment := (color_attachment (objects gl))(fresh_name (framebuffers (names gl)) := 0),
        depth_attachment := (depth_attachment (objects gl))(fresh_name (framebuffers (names gl)) := 0)\<rparr>"
  "bindings (snd (glGenFramebuffers gl)) = bindings gl"
  "tex_image (snd (glGenFramebuffers gl)) = tex_image gl"
  "uniforms (snd (glGenFramebuffers gl)) = uniforms gl"
  "draws (snd (glGenFramebuffers gl)) = draws gl"
  "clears (snd (glGenFramebuffers gl)) = clears gl"
  "driver (snd (glGenFramebuffers gl)) = driver gl"
  "misc (snd (glGenFramebuffers gl)) = misc gl"
  by (simp_all add: glGenFramebuffers_def Let_def)

lemma glGenTextures_state [simp]:
  "names (snd (glGenTextures gl)) = (names gl)
       \<lparr>textures := textures (names gl) @ [fresh_name (textures (names gl))]\<rparr>"
  "objects (snd (glGenTextures gl)) = (objects gl)
       \<lparr>tex_size := (tex_size (objects gl))(fresh_name (textures (names gl)) := (0, 0))\<rparr>"
  "bindings (snd (glGenTextures gl)) = bindings gl"
  "tex_image (snd (glGenTextures gl)) = tex_image gl"
  "uniforms (snd (glGenTextures gl)) = uniforms gl"
  "draws (snd (glGenTextures gl)) = draws gl"
  "clears (snd (glGenTextures gl)) = clears gl"
  "driver (snd (glGenTextures gl)) = driver gl"
  "misc (snd (glGenTextures gl)) = misc gl"
  by (simp_all add: glGenTextures_def Let_def)

lemma glGenRenderbuffers_state [simp]:
  "names (snd (glGenRenderbuffers gl)) = (names gl)
       \<lparr>renderbuffers := renderbuffers (names gl) @ [fresh_name (renderbuffers (names gl))]\<rparr>"
  "objects (snd (glGenRenderbuffers gl)) = (objects gl)
       \<lparr>rb_size := (rb_size (objects gl))(fresh_name (renderbuffers (names gl)) := (0, 0))\<rparr>"
  "bindings (snd (glGenRenderbuffers gl)) = bindings gl"
  "tex_image (snd (glGenRenderbuffers gl)) = tex_image gl"
  "uniforms (snd (glGenRenderbuffers gl)) = uniforms gl"
  "draws (snd (glGenRenderbuffers gl)) = draws gl"
  "clears (snd (glGenRenderbuffers gl)) = clears gl"
  "driver (snd (glGenRenderbuffers gl)) = driver gl"
  "misc (snd (glGenRenderbuffers gl)) = misc gl"
  by (simp_all add: glGenRenderbuffers_def Let_def)

lemma glTexImage2D_state [simp]:
  "objects (glTexImage2D fmt w h gl) = (objects gl)
       \<lparr>tex_size := (tex_size (objects gl))
          (bound_texture (bindings gl) (active_unit (bindings gl)) :=
             if w < 0 \<or> h < 0 then tex_size (objects gl) (bound_texture (bindings gl) (active_unit (bindings gl)))
             else (w, h))\<rparr>"
  "tex_image (glTexImage2D fmt w h gl) = (tex_image gl)
       (bound_texture (bindings gl) (active_unit (bindings gl)) :=
          if w < 0 \<or> h < 0 then tex_image gl (bound_texture (bindings gl) (active_unit (bindings gl))) else Blank)"
  "names (glTexImage2D fmt w h gl) = names gl"
  "bindings (glTexImage2D fmt w h gl) = bindings gl"
  "uniforms (glTexImage2D fmt w h gl) = uniforms gl"
  "draws (glTexImage2D fmt w h gl) = draws gl"
  "clears (glTexImage2D fmt w h gl) = clears gl"
  "driver (glTexImage2D fmt w h gl) = driver gl"
  "misc (glTexImage2D fmt w h gl) = misc gl"
  by (simp_all add: glTexImage2D_def Let_def)

lemma glRenderbufferStorage_state [simp]:
  "objects (glRenderbufferStorage w h gl) = (objects gl)
       \<lparr>rb_size := (rb_size (objects gl))
          (bound_renderbuffer (bindings gl) :=
             if w < 0 \<or> h < 0 then rb_size (objects gl) (bound_renderbuffer (bindings gl))
             else (w, h))\<rparr>"
  "names (glRenderbufferStorage w h gl) = names gl"
  "bindings (glRenderbufferStorage w h gl) = bindings gl"
  "tex_image (glRenderbufferStorage w h gl) = tex_image gl"
  "uniforms (glRenderbufferStorage w h gl) = uniforms gl"
  "draws (glRenderbufferStorage w h gl) = draws gl"
  "clears (glRenderbufferStorage w h gl) = clears gl"
  "driver (glRenderbufferStorage w h gl) = driver gl"
  "misc (glRenderbufferStorage w h gl) = misc gl"
  by (simp_all add: glRenderbufferStorage_def Let_def)

lemma glFramebufferTexture2D_state [simp]:
  "objects (glFramebufferTexture2D t gl) = (objects gl)
       \<lparr>color_attachment := (color_attachment (objects gl))
          (bound_framebuffer (bindings gl) :=
             if bound_framebuffer (bindings gl) = 0 then color_attachment (objects gl) (bound_framebuffer (bindings gl)) else t)\<rparr>"
  "names (glFramebufferTexture2D t gl) = names gl"
  "bindings (glFramebufferTexture2D t gl) = bindings gl"
  "tex_image (glFramebufferTexture2D t gl) = tex_image gl"
  "uniforms (glFramebufferTexture2D t gl) = uniforms gl"
  "draws (glFramebufferTexture2D t gl) = draws gl"
  "clears (glFramebufferTexture2D t gl) = clears gl"
  "driver (glFramebufferTexture2D t gl) = driver gl"
  "misc (glFramebufferTexture2D t gl) = misc gl"
  by (simp_all add: glFramebufferTexture2D_def Let_def)

lemma glFramebufferRenderbuffer_state [simp]:
  "objects (glFramebufferRenderbuffer rb gl) = (objects gl)
       \<lparr>depth_attachment := (depth_attachment (objects gl))
          (bound_framebuffer (bindings gl) :=
             if bound_framebuffer (bindings gl) = 0 then depth_attachment (objects gl) (bound_framebuffer (bindings gl)) else rb)\<rparr>"
  "names (glFramebufferRenderbuffer rb gl) = names gl"
  "bindings (glFramebufferRenderbuffer rb gl) = bindings gl"
  "tex_image (glFramebufferRenderbuffer rb gl) = tex_image gl"
  "uniforms (glFramebufferRenderbuffer rb gl) = uniforms gl"
  "draws (glFramebufferRenderbuffer rb gl) = draws gl"
  "clears (glFramebufferRenderbuffer rb gl) = clears gl"
  "driver (glFramebufferRenderbuffer rb gl) = driver gl"
  "misc (glFramebufferRenderbuffer rb gl) = misc gl"
  by (simp_all add: glFramebufferRenderbuffer_def Let_def)

lemma glDeleteFramebuffers_state [simp]:
  "f \<noteq> 0 \<Longrightarrow> names (glDeleteFramebuffers f gl) = (names gl)\<lparr>framebuffers := removeAll f (framebuffers (names gl))\<rparr>"
  "f \<noteq> 0 \<Longrightarrow> bindings (glDeleteFramebuffers f gl) = (bindings gl)
       \<lparr>bound_framebuffer := (if bound_framebuffer (bindings gl) = f then 0 else bound_framebuffer (bindings gl))\<rparr>"
  "f \<noteq> 0 \<Longrightarrow> objects (glDeleteFramebuffers f gl) = (objects gl)
       \<lparr>color_attachment := (color_attachment (objects gl))(f := 0),
        depth_attachment := (depth_attachment (objects gl))(f := 0)\<rparr>"
  "tex_image (glDeleteFramebuffers f gl) = tex_image gl"
  "uniforms (glDeleteFramebuffers f gl) = uniforms gl"
  "draws (glDeleteFramebuffers f gl) = draws gl"
  "clears (glDeleteFramebuffers f gl) = clears gl"
  "driver (glDeleteFramebuffers f gl) = driver gl"
  "misc (glDeleteFramebuffers f gl) = misc gl"
  by (simp_all add: glDeleteFramebuffers_def)

lemma glDeleteTextures_state [simp]:
  "t \<noteq> 0 \<Longrightarrow> names (glDeleteTextures t gl) = (names gl)\<lparr>textures := removeAll t (textures (names gl))\<rparr>"
  "t \<noteq> 0 \<Longrightarrow> bindings (glDeleteTextures t gl) = (bindings gl)
       \<lparr>bound_texture := (\<lambda>u. if bound_texture (bindings gl) u = t then 0
                               else bound_texture (bindings gl) u)\<rparr>"
  "objects (glDeleteTextures t gl) = objects gl"
  "tex_image (glDeleteTextures t gl) = tex_image gl"
  "uniforms (glDeleteTextures t gl) = uniforms gl"
  "draws (glDeleteTextures t gl) = draws gl"
  "clears (glDeleteTextures t gl) = clears gl"
  "driver (glDeleteTextures t gl) = driver gl"
  "misc (glDeleteTextures t gl) = misc gl"
  by (simp_all add: glDeleteTextures_def)

lemma glDeleteRenderbuffers_state [simp]:
  "rb \<noteq> 0 \<Longrightarrow> names (glDeleteRenderbuffers rb gl) = (names gl)\<lparr>renderbuffers := removeAll rb (renderbuffers (names gl))\<rparr>"
  "rb \<noteq> 0 \<Longrightarrow> bindings (glDeleteRenderbuffers rb gl) = (bindings gl)
       \<lparr>bound_renderbuffer := (if bound_renderbuffer (bindings gl) = rb then 0
                                else bound_renderbuffer (bindings gl))\<rparr>"
  "objects (glDeleteRenderbuffers rb gl) = objects gl"
  "tex_image (glDeleteRenderbuffers rb gl) = tex_image gl"
  "uniforms (glDeleteRenderbuffers rb gl) = uniforms gl"
  "draws (glDeleteRenderbuffers rb gl) = draws gl"
  "clears (glDeleteRenderbuffers rb gl) = clears gl"
  "driver (glDeleteRenderbuffers rb gl) = driver gl"
  "misc (glDeleteRenderbuffers rb gl) = misc gl"
  by (simp_all add: glDeleteRenderbuffers_def)

lemma glUniform_state [simp]:
  "uniforms (glUniform l v gl) = (uniforms gl)
       (current_program (bindings gl) :=
          if current_program (bindings gl) = 0 then uniforms gl (current_program (bindings gl))
          else (uniforms gl (current_program (bindings gl)))(l \<mapsto> v))"
  "names (glUniform l v gl) = names gl"
  "bindings (glUniform l v gl) = bindings gl"
  "objects (glUniform l v gl) = objects gl"
  "tex_image (glUniform l v gl) = tex_image gl"
  "draws (glUniform l v gl) = draws gl"
  "clears (glUniform l v gl) = clears gl"
  "driver (glUniform l v gl) = driver gl"
  "misc (glUniform l v gl) = misc gl"
  by (simp_all add: glUniform_def Let_def)

lemma glDrawArrays_state [simp]:
  "tex_image (glDrawArrays gl) = (tex_image gl)
       (color_attachment (objects gl) (bound_framebuffer (bindings gl)) :=
          if bound_framebuffer (bindings gl) \<noteq> 0 \<and> color_attachment (objects gl) (bound_framebuffer (bindings gl)) \<noteq> 0
          then Shaded (current_program (bindings gl)) (tex_image gl (bound_texture (bindings gl) 0))
          else tex_image gl (color_attachment (objects gl) (bound_framebuffer (bindings gl))))"
  "draws (glDrawArrays gl) = draws gl @
       [\<lparr>d_program = current_program (bindings gl), d_target = bound_framebuffer (bindings gl),
         d_source = bound_texture (bindings gl) 0, d_uniforms = uniforms gl (current_program (bindings gl))\<rparr>]"
  "names (glDrawArrays gl) = names gl"
  "bindings (glDrawArrays gl) = bindings gl"
  "objects (glDrawArrays gl) = objects gl"
  "uniforms (glDrawArrays gl) = uniforms gl"
  "clears (glDrawArrays gl) = clears gl"
  "driver (glDrawArrays gl) = driver gl"
  "misc (glDrawArrays gl) = misc gl"
  by (simp_all add: glDrawArrays_def Let_def)

lemma glClear_state [simp]:
  "tex_image (glClear gl) = (tex_image gl)
       (color_attachment (objects gl) (bound_framebuffer (bindings gl)) :=
          if bound_framebuffer (bindings gl) \<noteq> 0 \<and> color_attachment (objects gl) (bound_framebuffer (bindings gl)) \<noteq> 0 then Cleared
          else tex_image gl (color_attachment (objects gl) (bound_framebuffer (bindings gl))))"
  "clears (glClear gl) = clears gl @ [bound_framebuffer (bindings gl)]"
  "names (glClear gl) = names gl"
  "bindings (glClear gl) = bindings gl"
  "objects (glClear gl) = objects gl"
  "uniforms (glClear gl) = uniforms gl"
  "draws (glClear gl) = draws gl"
  "driver (glClear gl) = driver gl"
  "misc (glClear gl) = misc gl"
  by (simp_all add: glClear_def Let_def)

lemma eglMakeCurrent_state [simp]:
  "fst (eglMakeCurrent b gl) = egl_make_current_ok (driver gl)"
  "names (snd (eglMakeCurrent b gl)) = names gl"
  "bindings (snd (eglMakeCurrent b gl)) = bindings gl"
  "objects (snd (eglMakeCurrent b gl)) = objects gl"
  "tex_image (snd (eglMakeCurrent b gl)) = tex_image gl"
  "uniforms (snd (eglMakeCurrent b gl)) = uniforms gl"
  "draws (snd (eglMakeCurrent b gl)) = draws gl"
  "clears (snd (eglMakeCurrent b gl)) = clears gl"
  "driver (snd (eglMakeCurrent b gl)) = driver gl"
  by (simp_all add: eglMakeCurrent_def)

lemma initializeQuad_state [simp]:
  "names (initializeQuad gl) = names gl"
  "bindings (initializeQuad gl) = bindings gl"
  "objects (initializeQuad gl) = objects gl"
  "tex_image (initializeQuad gl) = tex_image gl"
  "uniforms (initializeQuad gl) = uniforms gl"
  "draws (initializeQuad gl) = draws gl"
  "clears (initializeQuad gl) = clears gl"
  "driver (initializeQuad gl) = driver gl"
  by (simp_all add: initializeQuad_def)

section \<open>OpenGLContext: framebuffer creation\<close>

lemma createFramebuffer_result:
  "fst (createFramebuffer w h fmt gl) =
     (if framebuffer_config_ok w h gl then fresh_name (framebuffers (names gl)) else 0)"
  by (simp add: createFramebuffer_def Let_def split_def glCheckFramebufferStatus_complete_def
      attachment_complete_def positive_size_def framebuffer_config_ok_def)

lemma createFramebuffer_names:
  "names (snd (createFramebuffer w h fmt gl)) =
     (if framebuffer_config_ok w h gl
      then (names gl)
        \<lparr>framebuffers := framebuffers (names gl) @ [fresh_name (framebuffers (names gl))],
         textures := textures (names gl) @ [fresh_name (textures (names gl))],
         renderbuffers := renderbuffers (names gl) @ [fresh_name (renderbuffers (names gl))]\<rparr>
      else names gl)"
  by (simp add: createFramebuffer_def Let_def split_def glCheckFramebufferStatus_complete_def
      attachment_complete_def positive_size_def framebuffer_config_ok_def)

lemma createFramebuffer_color_attachment:
  "framebuffer_config_ok w h gl \<Longrightarrow>
   color_attachment (objects (snd (createFramebuffer w h fmt gl))) =
     (color_attachment (objects gl))
       (fresh_name (framebuffers (names gl)) := fresh_name (textures (names gl)))"
  by (simp add: createFramebuffer_def Let_def split_def glCheckFramebufferStatus_complete_def
      attachment_complete_def positive_size_def framebuffer_config_ok_def)

lemma createFramebuffer_color_attachment_other:
  "f \<in> set (framebuffers (names gl)) \<Longrightarrow>
   color_attachment (objects (snd (createFramebuffer w h fmt gl))) f =
     color_attachment (objects gl) f"
  by (simp add: createFramebuffer_def Let_def split_def glCheckFramebufferStatus_complete_def
      attachment_complete_def positive_size_def fresh_name_neq)

lemma createFramebuffer_tex_image:
  "t \<in> set (textures (names gl)) \<Longrightarrow>
   tex_image (snd (createFramebuffer w h fmt gl)) t = tex_image gl t"
  by (simp add: createFramebuffer_def Let_def split_def fresh_name_neq)

lemma createFramebuffer_tex_image_new:
  "framebuffer_config_ok w h gl \<Longrightarrow>
   tex_image (snd (createFramebuffer w h fmt gl)) (fresh_name (textures (names gl))) = Blank"
  by (simp add: createFramebuffer_def Let_def split_def glCheckFramebufferStatus_complete_def
      attachment_complete_def positive_size_def framebuffer_config_ok_def)

lemma createFramebuffer_frame [simp]:
  "uniforms (snd (createFramebuffer w h fmt gl)) = uniforms gl"
  "draws (snd (createFramebuffer w h fmt gl)) = draws gl"
  "clears (snd (createFramebuffer w h fmt gl)) = clears gl"
  "driver (snd (createFramebuffer w h fmt gl)) = driver gl"
  "misc (snd (createFramebuffer w h fmt gl)) = misc gl"
  by (simp_all add: createFramebuffer_def Let_def split_def)

lemma deleteFramebuffer_state [simp]:
  "f \<noteq> 0 \<Longrightarrow> names (deleteFramebuffer f gl) =
     (names gl)\<lparr>framebuffers := removeAll f (framebuffers (names gl))\<rparr>"
  "f \<noteq> 0 \<Longrightarrow> color_attachment (objects (deleteFramebuffer f gl)) =
     (color_attachment (objects gl))(f := 0)"
  "tex_image (deleteFramebuffer f gl) = tex_image gl"
  "uniforms (deleteFramebuffer f gl) = uniforms gl"
  "draws (deleteFramebuffer f gl) = draws gl"
  "clears (deleteFramebuffer f gl) = clears gl"
  "driver (deleteFramebuffer f gl) = driver gl"
  "misc (deleteFramebuffer f gl) = misc gl"
  by (simp_all add: deleteFramebuffer_def)

lemma getFramebufferTexture_state [simp]:
  "fst (getFramebufferTexture f gl) = color_attachment (objects gl) f"
  "names (snd (getFramebufferTexture f gl)) = names gl"
  "objects (snd (getFramebufferTexture f gl)) = objects gl"
  "tex_image (snd (getFramebufferTexture f gl)) = tex_image gl"
  "uniforms (snd (getFramebufferTexture f gl)) = uniforms gl"
  "draws (snd (getFramebufferTexture f gl)) = draws gl"
  "clears (snd (getFramebufferTexture f gl)) = clears gl"
  "driver (snd (getFramebufferTexture f gl)) = driver gl"
  "misc (snd (getFramebufferTexture f gl)) = misc gl"
  by (simp_all add: getFramebufferTexture_def Let_def)

section \<open>Claims about the context\<close>

text \<open>
  C10. \<^verbatim>\<open>createFramebuffer\<close> called with width 0 or height 0 returns the sentinel 0, and
  no handle is leaked: the live framebuffers, textures and renderbuffers after the call
  are exactly those before it (the three objects allocated on the way were deleted).
\<close>

theorem createFramebuffer_zero_size:
  assumes "width = 0 \<or> height = 0"
  shows "fst (createFramebuffer width height colorFormat gl) = 0 \<and>
         framebuffers (names (snd (createFramebuffer width height colorFormat gl)))
           = framebuffers (names gl) \<and>
         textures (names (snd (createFramebuffer width height colorFormat gl)))
           = textures (names gl) \<and>
         renderbuffers (names (snd (createFramebuffer width height colorFormat gl)))
           = renderbuffers (names gl)"
proof -
  from assms have "\<not> framebuffer_config_ok width height gl"
    by (auto simp: framebuffer_config_ok_def)
  then show ?thesis
    by (simp add: createFramebuffer_result createFramebuffer_names)
qed

theorem createFramebuffer_zero_size_witness:
  "fst (createFramebuffer 0 64 GL_RGBA gl_initial) = 0 \<and>
   framebuffers (names (snd (createFramebuffer 0 64 GL_RGBA gl_initial))) = [] \<and>
   textures (names (snd (createFramebuffer 0 64 GL_RGBA gl_initial))) = [] \<and>
   renderbuffers (names (snd (createFramebuffer 0 64 GL_RGBA gl_initial))) = []"
  using createFramebuffer_zero_size [of 0 64 GL_RGBA gl_initial]
  by (simp add: gl_initial_def)

section \<open>Claims about the parameter model\<close>

lemma HSLEffect_definitions:
  "m_parameterDefinitions HSLEffect_new ''hue'' =
     Some \<lparr>p_name = ''hue'', p_uniformName = ''uHue'', p_defaultValue = Float 0.5,
           p_minValue = Float 0, p_maxValue = Float 1, p_type = ''float''\<rparr>"
  "m_parameterDefinitions HSLEffect_new ''gamma'' = None"
  by (simp_all add: HSLEffect_new_def defineParameter_def GPUEffect_new_def)

lemma setParameter_defined:
  assumes "m_parameterDefinitions e paramName = Some p"
  shows "fst (setParameter paramName v e) = True"
    and "getParameter (snd (setParameter paramName v e)) paramName
           = glm_clamp v (p_minValue p) (p_maxValue p)"
  using assms by (simp_all add: setParameter_def getParameter_def)

text \<open>
  C8, for values other than NaN. For a defined parameter and a value \<open>v\<close> that is not NaN,
  \<^verbatim>\<open>setParameter\<close> returns true and a following \<^verbatim>\<open>getParameter\<close> of the same name returns a
  value that compares equal (with the \<^verbatim>\<open>==\<close> of C++) to \<^verbatim>\<open>glm::clamp\<close> of \<open>v\<close> and the bounds
  of the definition. When neither bound is NaN that value is \<open>min (max v lo) hi\<close> in the
  order of the floats, for the bounds \<open>lo\<close> and \<open>hi\<close>; when the value and the bounds are
  numbers, it is the clamp of the real numbers.
\<close>

theorem setParameter_then_getParameter:
  assumes "m_parameterDefinitions e paramName = Some p" and "v \<noteq> NaN"
  shows "fst (setParameter paramName v e) = True \<and>
         float_eq (getParameter (snd (setParameter paramName v e)) paramName)
           (glm_clamp v (p_minValue p) (p_maxValue p)) \<and>
         (p_minValue p \<noteq> NaN \<and> p_maxValue p \<noteq> NaN \<longrightarrow>
            getParameter (snd (setParameter paramName v e)) paramName
              = min (max v (p_minValue p)) (p_maxValue p)) \<and>
         (\<forall>x lo hi. v = Float x \<and> p_minValue p = Float lo \<and> p_maxValue p = Float hi \<longrightarrow>
            getParameter (snd (setParameter paramName v e)) paramName
              = Float (min (max x lo) hi))"
  using setParameter_defined [OF assms(1), of v] glm_clamp_ordered [OF assms(2)]
    glm_clamp_not_nan [OF assms(2)]
  by (auto simp: glm_clamp_numbers float_eq_def)

text \<open>The hue of the HSL effect, with the bounds 0 and 1: a value below the range, a
  value inside it, a value above it, and the positive infinity.\<close>

theorem setParameter_then_getParameter_witness:
  "fst (setParameter ''hue'' (Float (- 1)) HSLEffect_new) = True \<and>
   getParameter (snd (setParameter ''hue'' (Float (- 1)) HSLEffect_new)) ''hue'' = Float 0 \<and>
   getParameter (snd (setParameter ''hue'' (Float 0.25) HSLEffect_new)) ''hue'' = Float 0.25 \<and>
   getParameter (snd (setParameter ''hue'' (Float 2) HSLEffect_new)) ''hue'' = Float 1 \<and>
   getParameter (snd (setParameter ''hue'' PInf HSLEffect_new)) ''hue'' = Float 1"
  using setParameter_then_getParameter [where v = "Float (- 1)", OF HSLEffect_definitions(1)]
    setParameter_then_getParameter [where v = "Float 0.25", OF HSLEffect_definitions(1)]
    setParameter_then_getParameter [where v = "Float 2", OF HSLEffect_definitions(1)]
    setParameter_then_getParameter [where v = PInf, OF HSLEffect_definitions(1)]
  by (simp add: min_def max_def)

text \<open>
  The claim as stated fails for NaN: \<^verbatim>\<open>setParameter\<close> returns true, the value stored and
  returned is NaN, which compares equal to nothing (the \<^verbatim>\<open>==\<close> of the claim is false) and
  lies neither above the minimum nor below the maximum of the definition.
\<close>

theorem setParameter_nan_counterexample:
  "fst (setParameter ''hue'' NaN HSLEffect_new) = True \<and>
   getParameter (snd (setParameter ''hue'' NaN HSLEffect_new)) ''hue'' = NaN \<and>
   float_eq (getParameter (snd (setParameter ''hue'' NaN HSLEffect_new)) ''hue'')
     (glm_clamp NaN (Float 0) (Float 1)) = False \<and>
   (Float 0 \<le> getParameter (snd (setParameter ''hue'' NaN HSLEffect_new)) ''hue'') = False \<and>
   (getParameter (snd (setParameter ''hue'' NaN HSLEffect_new)) ''hue'' \<le> Float 1) = False"
  using setParameter_defined [OF HSLEffect_definitions(1), of NaN]
  by (simp add: glm_clamp_nan)

text \<open>
  C9. \<^verbatim>\<open>setParameter\<close> on a name that has no definition returns false and leaves the
  effect, and so every parameter value, as it was.
\<close>

theorem setParameter_undefined_name:
  assumes "m_parameterDefinitions e paramName = None"
  shows "setParameter paramName v e = (False, e)"
  using assms by (simp add: setParameter_def)

theorem setParameter_undefined_name_witness:
  "setParameter ''gamma'' (Float 0.7) HSLEffect_new = (False, HSLEffect_new)"
  using setParameter_undefined_name [where v = "Float 0.7", OF HSLEffect_definitions(2)]
  by simp

section \<open>Claims about the effect list of the renderer\<close>

text \<open>
  C1. The guard of \<^verbatim>\<open>addEffect\<close> tests \<^verbatim>\<open>!effect->getName().empty()\<close>, so it rejects
  every effect whose name is not empty: on a new renderer, adding an effect named A
  returns false, the renderer is unchanged and the list of names stays empty. The only
  effect a new renderer accepts is one with the empty name.
\<close>

theorem addEffect_rejects_named_effect:
  "addEffect (Some (GPUEffect_new GPUEffectBase ''A'' COLOR None)) GPURenderer_new
     = (False, GPURenderer_new) \<and>
   getEffectNames
     (snd (addEffect (Some (GPUEffect_new GPUEffectBase ''A'' COLOR None)) GPURenderer_new)) = [] \<and>
   fst (addEffect (Some (GPUEffect_new GPUEffectBase [] COLOR None)) GPURenderer_new) = True"
  by (simp add: addEffect_def GPUEffect_new_def getEffectNames_def GPURenderer_new_def)

section \<open>Claims about apply\<close>

lemma example_effects:
  "isAvailable example_base" "m_enabled example_base"
  "isAvailable (setEnabled False example_base)"
  "\<not> m_enabled (setEnabled False example_base)"
  "\<not> isAvailable HSLEffect_new" "m_enabled HSLEffect_new"
  "\<not> m_enabled (setEnabled False HSLEffect_new)"
  by (simp_all add: isAvailable_def isValid_def setEnabled_def HSLEffect_new_def
      defineParameter_def GPUEffect_new_def example_shader_def example_base_def)

text \<open>
  C6, as the code has it. The availability test comes first: an effect whose shader
  never compiled makes \<^verbatim>\<open>apply\<close> return false whether it is enabled or not, and a disabled
  effect with a compiled shader makes it return true; in both cases the effect and the
  GL state are untouched.
\<close>

theorem apply_unavailable_or_disabled:
  "(\<not> isAvailable e \<longrightarrow>
      GPUEffect_apply e inputTexture outputFramebuffer width height gl = (False, e, gl)) \<and>
   (isAvailable e \<and> \<not> m_enabled e \<longrightarrow>
      GPUEffect_apply e inputTexture outputFramebuffer width height gl = (True, e, gl))"
  by (simp add: GPUEffect_apply_def)

theorem apply_unavailable_or_disabled_witness:
  "\<not> isAvailable HSLEffect_new \<and>
   GPUEffect_apply HSLEffect_new 5 7 64 64 gl_initial = (False, HSLEffect_new, gl_initial) \<and>
   isAvailable (setEnabled False example_base) \<and>
   \<not> m_enabled (setEnabled False example_base) \<and>
   GPUEffect_apply (setEnabled False example_base) 5 7 64 64 gl_initial
     = (True, setEnabled False example_base, gl_initial)"
  using apply_unavailable_or_disabled [of HSLEffect_new 5 7 64 64 gl_initial]
    apply_unavailable_or_disabled [of "setEnabled False example_base" 5 7 64 64 gl_initial]
    example_effects
  by simp

text \<open>The claim as stated fails for a disabled effect whose shader never compiled:
  \<^verbatim>\<open>apply\<close> returns false.\<close>

theorem apply_disabled_counterexample:
  "\<not> m_enabled (setEnabled False HSLEffect_new) \<and>
   fst (GPUEffect_apply (setEnabled False HSLEffect_new) 5 7 64 64 gl_initial) = False"
  by (simp add: GPUEffect_apply_def isAvailable_def setEnabled_def HSLEffect_new_def
      defineParameter_def GPUEffect_new_def)

section \<open>Setting uniforms\<close>

lemma setUniform_state [simp]:
  "names (snd (setUniform n v s)) = names (snd s)"
  "bindings (snd (setUniform n v s)) = bindings (snd s)"
  "objects (snd (setUniform n v s)) = objects (snd s)"
  "tex_image (snd (setUniform n v s)) = tex_image (snd s)"
  "draws (snd (setUniform n v s)) = draws (snd s)"
  "clears (snd (setUniform n v s)) = clears (snd s)"
  "driver (snd (setUniform n v s)) = driver (snd s)"
  "misc (snd (setUniform n v s)) = misc (snd s)"
  "m_programId (fst (setUniform n v s)) = m_programId (fst s)"
  by (simp_all add: setUniform_def getCachedUniformLocation_def Let_def split: option.splits)

lemma setUniform_cache:
  "m_uniformLocations (fst (setUniform n v s)) =
     (case m_uniformLocations (fst s) n of
        Some l \<Rightarrow> m_uniformLocations (fst s)
      | None \<Rightarrow> (m_uniformLocations (fst s))
          (n \<mapsto> location_of (program_uniforms (driver (snd s)) (m_programId (fst s))) n))"
  by (simp add: setUniform_def getCachedUniformLocation_def getUniformLocation_def
      glGetUniformLocation_def Let_def split: option.splits)

lemma shader_setUniform_step: "uniform_step s (shader_setUniform n v s)"
proof (cases "m_shader (fst s)")
  case None
  then show ?thesis by (simp add: uniform_step_def shader_setUniform_def)
next
  case (Some sh)
  have "cache_consistent (driver (snd s)) (fst s) \<Longrightarrow>
        cache_consistent (driver (snd s)) (fst (shader_setUniform n v s))"
    using Some
    by (auto simp: cache_consistent_def shader_setUniform_def setUniform_cache
        split: option.splits if_splits)
  with Some show ?thesis
    by (simp add: uniform_step_def shader_setUniform_def shader_program_def)
qed

lemma uniform_step_refl [simp]: "uniform_step s s"
  by (simp add: uniform_step_def)

lemma uniform_step_trans: "uniform_step s s1 \<Longrightarrow> uniform_step s1 s2 \<Longrightarrow> uniform_step s s2"
  by (simp add: uniform_step_def)

lemma bind_unit1_step:
  "uniform_step s (on_gl (glBindTexture t) (on_gl (glActiveTexture (Suc 0)) s))"
  by (simp add: uniform_step_def on_gl_def)

lemma uniform_step_set:
  "uniform_step s s1 \<Longrightarrow> uniform_step s (shader_setUniform n v s1)"
  using shader_setUniform_step uniform_step_trans by blast

lemma bind_vertex_array_step: "uniform_step s (on_gl (glBindVertexArray v) s)"
  by (simp add: uniform_step_def on_gl_def)

lemma customUniforms_step: "uniform_step s (customUniforms cls w h s)"
  by (cases cls) (auto simp: Let_def intro!: uniform_step_set bind_unit1_step)

lemma applyCustomUniforms_step: "uniform_step s (applyCustomUniforms t w h s)"
  by (simp add: applyCustomUniforms_def customUniforms_step)

section \<open>Uniform values\<close>

lemma location_of_ge: "- 1 \<le> location_of xs n"
  by (induction xs) (auto simp: Let_def)

lemma location_of_inj:
  "location_of xs a = location_of xs b \<Longrightarrow> location_of xs a \<noteq> - 1 \<Longrightarrow> a = b"
proof (induction xs)
  case Nil
  then show ?case by simp
next
  case (Cons x xs)
  have ge: "- 1 \<le> location_of xs a" "- 1 \<le> location_of xs b"
    by (rule location_of_ge)+
  from Cons ge show ?case
    by (auto simp: Let_def split: if_splits)
qed

lemma location_of_eq_iff [simp]:
  "location_of xs a \<noteq> - 1 \<Longrightarrow> (location_of xs b = location_of xs a) = (b = a)"
  using location_of_inj [of xs a b] by auto

lemma uniform_step_fields:
  assumes "uniform_step s s'"
  shows "m_intensity (fst s') = m_intensity (fst s)"
    and "m_enabled (fst s') = m_enabled (fst s)"
    and "m_parameters (fst s') = m_parameters (fst s)"
    and "m_class (fst s') = m_class (fst s)"
    and "m_name (fst s') = m_name (fst s)"
    and "getParameter (fst s') n = getParameter (fst s) n"
    and "isAvailable (fst s') = isAvailable (fst s)"
proof -
  from assms have eq: "(fst s')\<lparr>m_shader := None\<rparr> = (fst s)\<lparr>m_shader := None\<rparr>"
    by (simp add: uniform_step_def)
  show "m_intensity (fst s') = m_intensity (fst s)"
    using arg_cong [OF eq, of m_intensity] by simp
  show "m_enabled (fst s') = m_enabled (fst s)"
    using arg_cong [OF eq, of m_enabled] by simp
  show p: "m_parameters (fst s') = m_parameters (fst s)"
    using arg_cong [OF eq, of m_parameters] by simp
  show "m_class (fst s') = m_class (fst s)"
    using arg_cong [OF eq, of m_class] by simp
  show "m_name (fst s') = m_name (fst s)"
    using arg_cong [OF eq, of m_name] by simp
  show "getParameter (fst s') n = getParameter (fst s) n"
    by (simp add: getParameter_def p)
  from assms have "shader_program (fst s') = shader_program (fst s)"
    "(m_shader (fst s') = None) = (m_shader (fst s) = None)"
    by (simp_all add: uniform_step_def)
  then show "isAvailable (fst s') = isAvailable (fst s)"
    by (auto simp: isAvailable_def isValid_def shader_program_def split: option.splits)
qed

lemma bound_to_step: "uniform_step s s' \<Longrightarrow> bound_to p s \<Longrightarrow> bound_to p s'"
  by (simp add: uniform_step_def bound_to_def)

lemma shader_setUniform_value:
  assumes "bound_to p s"
  shows "uniforms (snd (shader_setUniform n v s)) p =
     (if location_of (program_uniforms (driver (snd s)) p) n = - 1 then uniforms (snd s) p
      else (uniforms (snd s) p)(location_of (program_uniforms (driver (snd s)) p) n \<mapsto> v))"
proof -
  from assms obtain sh where sh: "m_shader (fst s) = Some sh" "m_programId sh = p" "p \<noteq> 0"
    "current_program (bindings (snd s)) = p"
    by (auto simp: bound_to_def shader_program_def)
  from assms sh have cached: "\<And>l. m_uniformLocations sh n = Some l \<Longrightarrow>
      l = location_of (program_uniforms (driver (snd s)) p) n"
    by (auto simp: bound_to_def cache_consistent_def)
  show ?thesis
  proof (cases "m_uniformLocations sh n")
    case None
    with sh show ?thesis
      by (simp add: shader_setUniform_def setUniform_def getCachedUniformLocation_def
          getUniformLocation_def glGetUniformLocation_def Let_def)
  next
    case (Some l)
    with sh cached [OF Some] show ?thesis
      by (simp add: shader_setUniform_def setUniform_def getCachedUniformLocation_def Let_def)
  qed
qed

section \<open>apply, for an available and enabled effect\<close>

lemma apply_unfold:
  assumes "isAvailable e" "m_enabled e"
  shows "GPUEffect_apply e t f w h gl =
    (True, fst (apply_at_draw e t f w h gl),
     glBindTexture 0 (glBindFramebuffer 0 (glBindVertexArray 0
       (glDrawArrays (snd (apply_at_draw e t f w h gl))))))"
  using assms
  by (simp add: GPUEffect_apply_def apply_at_draw_def apply_bindings_def Let_def
      renderFullscreenQuad_def)

lemma use_state [simp]:
  "names (use sh gl) = names gl"
  "objects (use sh gl) = objects gl"
  "tex_image (use sh gl) = tex_image gl"
  "uniforms (use sh gl) = uniforms gl"
  "draws (use sh gl) = draws gl"
  "clears (use sh gl) = clears gl"
  "driver (use sh gl) = driver gl"
  "misc (use sh gl) = misc gl"
  "m_programId sh \<noteq> 0 \<Longrightarrow> bindings (use sh gl) = (bindings gl)\<lparr>current_program := m_programId sh\<rparr>"
  by (simp_all add: use_def)

lemma apply_bindings_state [simp]:
  "names (apply_bindings e t f w h gl) = names gl"
  "objects (apply_bindings e t f w h gl) = objects gl"
  "tex_image (apply_bindings e t f w h gl) = tex_image gl"
  "uniforms (apply_bindings e t f w h gl) = uniforms gl"
  "draws (apply_bindings e t f w h gl) = draws gl"
  "clears (apply_bindings e t f w h gl) = clears gl"
  "driver (apply_bindings e t f w h gl) = driver gl"
  "bound_framebuffer (bindings (apply_bindings e t f w h gl)) = f"
  "bound_texture (bindings (apply_bindings e t f w h gl)) 0 = t"
  by (simp_all add: apply_bindings_def Let_def split: option.splits)

lemma apply_bindings_program [simp]:
  "isAvailable e \<Longrightarrow>
   current_program (bindings (apply_bindings e t f w h gl)) = shader_program e"
  by (auto simp: apply_bindings_def Let_def isAvailable_def isValid_def shader_program_def
      split: option.splits)

lemma apply_at_draw_step:
  "uniform_step (e, apply_bindings e t f w h gl) (apply_at_draw e t f w h gl)"
  unfolding apply_at_draw_def Let_def
  by (intro uniform_step_set uniform_step_trans [OF _ applyCustomUniforms_step]
      uniform_step_trans [OF _ bind_vertex_array_step] uniform_step_refl)

lemma apply_at_draw_state [simp]:
  "names (snd (apply_at_draw e t f w h gl)) = names gl"
  "objects (snd (apply_at_draw e t f w h gl)) = objects gl"
  "tex_image (snd (apply_at_draw e t f w h gl)) = tex_image gl"
  "draws (snd (apply_at_draw e t f w h gl)) = draws gl"
  "clears (snd (apply_at_draw e t f w h gl)) = clears gl"
  "driver (snd (apply_at_draw e t f w h gl)) = driver gl"
  "bound_framebuffer (bindings (snd (apply_at_draw e t f w h gl))) = f"
  "bound_texture (bindings (snd (apply_at_draw e t f w h gl))) 0 = t"
  using apply_at_draw_step [of e t f w h gl] by (simp_all add: uniform_step_def)

lemma apply_at_draw_program [simp]:
  "isAvailable e \<Longrightarrow>
   current_program (bindings (snd (apply_at_draw e t f w h gl))) = shader_program e"
  using apply_at_draw_step [of e t f w h gl] by (simp add: uniform_step_def)

lemma apply_at_draw_effect:
  "m_intensity (fst (apply_at_draw e t f w h gl)) = m_intensity e"
  "m_enabled (fst (apply_at_draw e t f w h gl)) = m_enabled e"
  "isAvailable (fst (apply_at_draw e t f w h gl)) = isAvailable e"
  "shader_program (fst (apply_at_draw e t f w h gl)) = shader_program e"
  using uniform_step_fields [OF apply_at_draw_step [of e t f w h gl]]
    apply_at_draw_step [of e t f w h gl]
  by (simp_all add: uniform_step_def)

text \<open>What a successful \<^verbatim>\<open>apply\<close> does to the state the compositor looks at.\<close>

lemma apply_enabled_result:
  assumes "isAvailable e" "m_enabled e"
  shows "fst (GPUEffect_apply e t f w h gl) = True"
    and "names (snd (snd (GPUEffect_apply e t f w h gl))) = names gl"
    and "objects (snd (snd (GPUEffect_apply e t f w h gl))) = objects gl"
    and "clears (snd (snd (GPUEffect_apply e t f w h gl))) = clears gl"
    and "driver (snd (snd (GPUEffect_apply e t f w h gl))) = driver gl"
    and "draws (snd (snd (GPUEffect_apply e t f w h gl))) = draws gl @
          [\<lparr>d_program = shader_program e, d_target = f, d_source = t,
            d_uniforms = uniforms (snd (apply_at_draw e t f w h gl)) (shader_program e)\<rparr>]"
    and "tex_image (snd (snd (GPUEffect_apply e t f w h gl))) =
          (tex_image gl)(color_attachment (objects gl) f :=
             if f \<noteq> 0 \<and> color_attachment (objects gl) f \<noteq> 0
             then Shaded (shader_program e) (tex_image gl t)
             else tex_image gl (color_attachment (objects gl) f))"
    and "m_enabled (fst (snd (GPUEffect_apply e t f w h gl))) = m_enabled e"
    and "isAvailable (fst (snd (GPUEffect_apply e t f w h gl))) = isAvailable e"
    and "shader_program (fst (snd (GPUEffect_apply e t f w h gl))) = shader_program e"
  using assms by (simp_all add: apply_unfold apply_at_draw_effect)

section \<open>The uniform values a draw call runs with\<close>

lemma write_uniform_at [simp]:
  "location_of a n \<noteq> - 1 \<Longrightarrow> write_uniform a n v u (location_of a n) = Some v"
  by (simp add: write_uniform_def)

lemma write_uniform_other [simp]:
  "location_of a k \<noteq> - 1 \<Longrightarrow> n \<noteq> k \<Longrightarrow>
   write_uniform a n v u (location_of a k) = u (location_of a k)"
  by (simp add: write_uniform_def)

lemma on_gl_simps [simp]:
  "fst (on_gl g s) = fst s"
  "snd (on_gl g s) = g (snd s)"
  by (simp_all add: on_gl_def)

lemma shader_setUniform_simps [simp]:
  "driver (snd (shader_setUniform n v s)) = driver (snd s)"
  "getParameter (fst (shader_setUniform n v s)) k = getParameter (fst s) k"
  "m_intensity (fst (shader_setUniform n v s)) = m_intensity (fst s)"
  "m_class (fst (shader_setUniform n v s)) = m_class (fst s)"
  "(m_shader (fst (shader_setUniform n v s)) = None) = (m_shader (fst s) = None)"
  using uniform_step_fields [OF shader_setUniform_step [of s n v]]
    shader_setUniform_step [of s n v]
  by (simp_all add: uniform_step_def)

lemma bound_to_shader_setUniform [simp]:
  "bound_to p s \<Longrightarrow> bound_to p (shader_setUniform n v s)"
  using bound_to_step [OF shader_setUniform_step] .

lemma bound_to_bind_vertex_array [simp]:
  "bound_to p (on_gl (glBindVertexArray v) s) = bound_to p s"
  by (simp add: bound_to_def)

lemma shader_setUniform_write [simp]:
  "bound_to p s \<Longrightarrow>
   uniforms (snd (shader_setUniform n v s)) p =
     write_uniform (program_uniforms (driver (snd s)) p) n v (uniforms (snd s) p)"
  by (simp add: shader_setUniform_value write_uniform_def)

lemma bound_to_apply_bindings:
  assumes "isAvailable e" "cache_consistent (driver gl) e"
  shows "bound_to (shader_program e) (e, apply_bindings e t f w h gl)"
  using assms
  by (auto simp: bound_to_def isAvailable_def isValid_def shader_program_def
      split: option.splits)

lemma draw_uniforms:
  assumes "isAvailable e" "m_enabled e"
  shows "draws (snd (snd (GPUEffect_apply e t f w h gl))) \<noteq> []"
    and "butlast (draws (snd (snd (GPUEffect_apply e t f w h gl)))) = draws gl"
    and "d_target (last (draws (snd (snd (GPUEffect_apply e t f w h gl))))) = f"
    and "d_source (last (draws (snd (snd (GPUEffect_apply e t f w h gl))))) = t"
    and "d_program (last (draws (snd (snd (GPUEffect_apply e t f w h gl))))) = shader_program e"
    and "d_uniforms (last (draws (snd (snd (GPUEffect_apply e t f w h gl))))) =
           uniforms (snd (apply_at_draw e t f w h gl)) (shader_program e)"
  using assms by (simp_all add: apply_enabled_result)

text \<open>The last write before the draw is the one of \<open>uIntensity\<close>.\<close>

lemma at_draw_intensity:
  assumes "isAvailable e" "cache_consistent (driver gl) e"
    and "location_of (program_uniforms (driver gl) (shader_program e)) ''uIntensity'' \<noteq> - 1"
  shows "uniforms (snd (apply_at_draw e t f w h gl)) (shader_program e)
           (location_of (program_uniforms (driver gl) (shader_program e)) ''uIntensity'')
         = Some (UFloat (m_intensity e))"
proof -
  let ?p = "shader_program e"
  define s9 where "s9 = applyCustomUniforms t w h
     (on_gl (glBindVertexArray (s_quadVAO (misc (snd (shader_setUniform ''uTexture'' (UInt 0)
              (e, apply_bindings e t f w h gl))))))
        (shader_setUniform ''uTexture'' (UInt 0) (e, apply_bindings e t f w h gl)))"
  have step: "uniform_step (e, apply_bindings e t f w h gl) s9"
    unfolding s9_def
    by (intro uniform_step_trans [OF _ applyCustomUniforms_step]
        uniform_step_trans [OF _ bind_vertex_array_step] shader_setUniform_step)
  have b: "bound_to ?p s9"
    using bound_to_step [OF step bound_to_apply_bindings [OF assms(1,2)]] .
  have d: "driver (snd s9) = driver gl" and i: "m_intensity (fst s9) = m_intensity e"
    using step uniform_step_fields(1) [OF step] by (simp_all add: uniform_step_def)
  have "apply_at_draw e t f w h gl = shader_setUniform ''uIntensity'' (UFloat (m_intensity e)) s9"
    by (simp add: apply_at_draw_def Let_def s9_def [symmetric] i)
  with b d assms(3) show ?thesis by simp
qed

lemma at_draw_custom:
  assumes "isAvailable e" "cache_consistent (driver gl) e"
  shows "uniforms (snd (apply_at_draw e t f w h gl)) (shader_program e) =
     (let a = program_uniforms (driver gl) (shader_program e);
          s8 = on_gl (glBindVertexArray (s_quadVAO (misc (snd (shader_setUniform ''uTexture''
                  (UInt 0) (e, apply_bindings e t f w h gl))))))
                 (shader_setUniform ''uTexture'' (UInt 0) (e, apply_bindings e t f w h gl))
      in write_uniform a ''uIntensity'' (UFloat (m_intensity e))
           (uniforms (snd (customUniforms (m_class e) w h s8)) (shader_program e)))"
proof -
  let ?p = "shader_program e"
  define s8 where "s8 = on_gl (glBindVertexArray (s_quadVAO (misc (snd (shader_setUniform
       ''uTexture'' (UInt 0) (e, apply_bindings e t f w h gl))))))
        (shader_setUniform ''uTexture'' (UInt 0) (e, apply_bindings e t f w h gl))"
  have step8: "uniform_step (e, apply_bindings e t f w h gl) s8"
    unfolding s8_def
    by (intro uniform_step_trans [OF _ bind_vertex_array_step] shader_setUniform_step)
  have cls: "m_class (fst s8) = m_class e" and sh: "m_shader (fst s8) \<noteq> None"
    using uniform_step_fields(4) [OF step8] step8 assms(1)
    by (auto simp: uniform_step_def isAvailable_def split: option.splits)
  define s9 where "s9 = customUniforms (m_class e) w h s8"
  have s9: "applyCustomUniforms t w h s8 = s9"
    using cls sh by (auto simp: applyCustomUniforms_def s9_def)
  have step: "uniform_step (e, apply_bindings e t f w h gl) s9"
    unfolding s9_def by (rule uniform_step_trans [OF step8 customUniforms_step])
  have b: "bound_to ?p s9"
    using bound_to_step [OF step bound_to_apply_bindings [OF assms(1,2)]] .
  have d: "driver (snd s9) = driver gl" and i: "m_intensity (fst s9) = m_intensity e"
    using step uniform_step_fields(1) [OF step] by (simp_all add: uniform_step_def)
  have "apply_at_draw e t f w h gl = shader_setUniform ''uIntensity'' (UFloat (m_intensity e)) s9"
    by (simp add: apply_at_draw_def Let_def s8_def [symmetric] s9 i)
  with b d show ?thesis by (simp add: Let_def s8_def [symmetric] s9_def)
qed

lemma bound_to_s8:
  assumes "isAvailable e" "cache_consistent (driver gl) e"
  shows "bound_to (shader_program e)
     (on_gl (glBindVertexArray v)
        (shader_setUniform ''uTexture'' (UInt 0) (e, apply_bindings e t f w h gl)))"
  using bound_to_apply_bindings [OF assms] by simp

lemma at_draw_hsl:
  assumes "isAvailable e" "cache_consistent (driver gl) e" "m_class e = HSLEffect"
    and "location_of (program_uniforms (driver gl) (shader_program e)) ''uHue'' \<noteq> - 1"
  shows "uniforms (snd (apply_at_draw e t f w h gl)) (shader_program e)
           (location_of (program_uniforms (driver gl) (shader_program e)) ''uHue'')
         = Some (UFloat ((getParameter e ''hue'' * Float 2 - Float 1) * Float 180))"
  using assms(3,4) bound_to_s8 [OF assms(1,2)]
  by (simp add: at_draw_custom [OF assms(1,2)] Let_def)

lemma at_draw_chromatic:
  assumes "isAvailable e" "cache_consistent (driver gl) e"
    and "m_class e = ChromaticAberrationEffect"
    and "location_of (program_uniforms (driver gl) (shader_program e)) ''uOffset'' \<noteq> - 1"
  shows "uniforms (snd (apply_at_draw e t f w h gl)) (shader_program e)
           (location_of (program_uniforms (driver gl) (shader_program e)) ''uOffset'')
         = Some (UVec2
             (glm_cos (getParameter e ''direction'' * Float 3.14159 / Float 180)
                * getParameter e ''amount'' * Float 0.02)
             (glm_sin (getParameter e ''direction'' * Float 3.14159 / Float 180)
                * getParameter e ''amount'' * Float 0.02))"
  using assms(3,4) bound_to_s8 [OF assms(1,2)]
  by (simp add: at_draw_custom [OF assms(1,2)] Let_def)

lemma at_draw_color_grade:
  assumes "isAvailable e" "cache_consistent (driver gl) e"
    and "m_class e = ColorGradeEffect 0"
    and "location_of (program_uniforms (driver gl) (shader_program e)) ''uTemperature'' \<noteq> - 1"
  shows "uniforms (snd (apply_at_draw e t f w h gl)) (shader_program e)
           (location_of (program_uniforms (driver gl) (shader_program e)) ''uTemperature'')
         = Some (UFloat (getParameter e ''temperature''))"
  using assms(3,4) bound_to_s8 [OF assms(1,2)]
  by (simp add: at_draw_custom [OF assms(1,2)] Let_def)

section \<open>Claims about the uniforms of a draw\<close>

lemmas example_effect_defs =
  example_vignette_def example_base_def example_hsl_def example_chromatic_def
  assign_shader_def VignetteEffect_new_def HSLEffect_new_def ChromaticAberrationEffect_new_def
  ColorGradeEffect_new_def defineParameter_def GPUEffect_new_def setParameter_def
  setIntensity_def example_shader_def

lemma example_effects_ready:
  "isAvailable example_vignette" "m_enabled example_vignette"
  "cache_consistent (driver gl_initial) example_vignette"
  "shader_program example_vignette = 1"
  "isAvailable (setIntensity (Float 0.4) example_base)"
  "m_enabled (setIntensity (Float 0.4) example_base)"
  "cache_consistent (driver gl_initial) (setIntensity (Float 0.4) example_base)"
  "shader_program (setIntensity (Float 0.4) example_base) = 1"
  by (simp_all add: example_effect_defs isAvailable_def isValid_def cache_consistent_def
      shader_program_def)

lemma example_effects_values:
  "m_intensity example_vignette = Float 1"
  "getParameter example_vignette ''softness'' = Float 0.3"
  "m_class example_vignette = VignetteEffect"
  "m_intensity (setIntensity (Float 0.4) example_base) = Float 0.4"
  by (simp_all add: example_effect_defs getParameter_def glm_clamp_numbers)

lemma example_locations:
  "glGetUniformLocation gl_initial 1 ''uIntensity'' = 1"
  "glGetUniformLocation gl_initial 1 ''uHue'' = 2"
  "glGetUniformLocation gl_initial 1 ''uOffset'' = 5"
  "glGetUniformLocation gl_initial 1 ''uTemperature'' = 7"
  "location_of (program_uniforms (driver gl_initial) 1) ''uOffset'' = 5"
  "location_of (program_uniforms (driver gl_initial) 1) ''uTemperature'' = 7"
  by (simp_all add: glGetUniformLocation_def gl_initial_def example_driver_def)

text \<open>
  C7. When \<^verbatim>\<open>apply\<close> succeeds on an enabled effect, it issues exactly one draw call, and
  at that draw the uniform \<open>uIntensity\<close> of the effect's program holds the stored
  \<open>m_intensity\<close>, whatever the custom hook of the effect's class wrote there before.
\<close>

theorem apply_draws_with_stored_intensity:
  assumes "isAvailable e" and "m_enabled e" and "cache_consistent (driver gl) e"
    and "glGetUniformLocation gl (shader_program e) ''uIntensity'' \<noteq> - 1"
  shows "fst (GPUEffect_apply e inputTexture outputFramebuffer width height gl) = True \<and>
         butlast (draws (snd (snd (GPUEffect_apply e inputTexture outputFramebuffer width height gl))))
           = draws gl \<and>
         d_program (last (draws (snd (snd
             (GPUEffect_apply e inputTexture outputFramebuffer width height gl)))))
           = shader_program e \<and>
         d_uniforms (last (draws (snd (snd
             (GPUEffect_apply e inputTexture outputFramebuffer width height gl)))))
             (glGetUniformLocation gl (shader_program e) ''uIntensity'')
           = Some (UFloat (m_intensity e))"
  using assms draw_uniforms [OF assms(1,2)] at_draw_intensity [OF assms(1,3)]
  by (simp add: glGetUniformLocation_def apply_enabled_result)

text \<open>The vignette, whose hook writes \<open>m_intensity * softness = 0.3\<close> to \<open>uIntensity\<close>, draws
  with the stored intensity 1; the base effect with the intensity set to 0.4 draws with
  0.4.\<close>

theorem apply_draws_with_stored_intensity_witness:
  "getParameter example_vignette ''softness'' = Float 0.3 \<and>
   fst (GPUEffect_apply example_vignette 5 7 64 64 gl_initial) = True \<and>
   d_uniforms (last (draws (snd (snd (GPUEffect_apply example_vignette 5 7 64 64 gl_initial)))))
     1 = Some (UFloat (Float 1)) \<and>
   fst (GPUEffect_apply (setIntensity (Float 0.4) example_base) 5 7 64 64 gl_initial) = True \<and>
   d_uniforms (last (draws (snd (snd
       (GPUEffect_apply (setIntensity (Float 0.4) example_base) 5 7 64 64 gl_initial)))))
     1 = Some (UFloat (Float 0.4))"
  using apply_draws_with_stored_intensity [of example_vignette gl_initial 5 7 64 64]
    apply_draws_with_stored_intensity
      [of "setIntensity (Float 0.4) example_base" gl_initial 5 7 64 64]
    example_effects_ready example_effects_values example_locations
  by simp

section \<open>The custom-uniform hooks\<close>

text \<open>
  What the bodies of the hooks compute, past their first line. The statement is about an
  effect that holds a compiled shader; for the concrete classes that is an effect to
  which a shader has been assigned, which no function of the sources does. At the draw
  of \<^verbatim>\<open>apply\<close> the HSL hook has bound \<open>uHue = (p * 2 - 1) * 180\<close> for the stored hue \<open>p\<close>; the
  chromatic aberration hook has bound \<open>uOffset = (cos r, sin r) * amount * 0.02\<close> with
  \<open>r = direction * 3.14159 / 180\<close>; the colour grade hook has bound the stored temperature
  as it is.
\<close>

lemma hook_bodies_with_shader:
  assumes "isAvailable e" and "m_enabled e" and "cache_consistent (driver gl) e"
  shows "(m_class e = HSLEffect \<and> glGetUniformLocation gl (shader_program e) ''uHue'' \<noteq> - 1 \<longrightarrow>
          d_uniforms (last (draws (snd (snd
              (GPUEffect_apply e inputTexture outputFramebuffer width height gl)))))
              (glGetUniformLocation gl (shader_program e) ''uHue'')
            = Some (UFloat ((getParameter e ''hue'' * Float 2 - Float 1) * Float 180))) \<and>
         (m_class e = ChromaticAberrationEffect \<and>
          glGetUniformLocation gl (shader_program e) ''uOffset'' \<noteq> - 1 \<longrightarrow>
          d_uniforms (last (draws (snd (snd
              (GPUEffect_apply e inputTexture outputFramebuffer width height gl)))))
              (glGetUniformLocation gl (shader_program e) ''uOffset'')
            = Some (UVec2
                (glm_cos (getParameter e ''direction'' * Float 3.14159 / Float 180)
                   * getParameter e ''amount'' * Float 0.02)
                (glm_sin (getParameter e ''direction'' * Float 3.14159 / Float 180)
                   * getParameter e ''amount'' * Float 0.02))) \<and>
         (m_class e = ColorGradeEffect 0 \<and>
          glGetUniformLocation gl (shader_program e) ''uTemperature'' \<noteq> - 1 \<longrightarrow>
          d_uniforms (last (draws (snd (snd
              (GPUEffect_apply e inputTexture outputFramebuffer width height gl)))))
              (glGetUniformLocation gl (shader_program e) ''uTemperature'')
            = Some (UFloat (getParameter e ''temperature'')))"
  using at_draw_hsl [OF assms(1,3)] at_draw_chromatic [OF assms(1,3)]
    at_draw_color_grade [OF assms(1,3)]
  by (simp add: draw_uniforms [OF assms(1,2)] glGetUniformLocation_def)

lemma assigned_effects_ready:
  "isAvailable (assign_shader example_shader example_hsl)"
  "m_enabled (assign_shader example_shader example_hsl)"
  "cache_consistent (driver gl_initial) (assign_shader example_shader example_hsl)"
  "shader_program (assign_shader example_shader example_hsl) = 1"
  "m_class (assign_shader example_shader example_hsl) = HSLEffect"
  "getParameter (assign_shader example_shader example_hsl) ''hue'' = Float 0.75"
  "isAvailable (assign_shader example_shader example_chromatic)"
  "m_enabled (assign_shader example_shader example_chromatic)"
  "cache_consistent (driver gl_initial) (assign_shader example_shader example_chromatic)"
  "shader_program (assign_shader example_shader example_chromatic) = 1"
  "m_class (assign_shader example_shader example_chromatic) = ChromaticAberrationEffect"
  "getParameter (assign_shader example_shader example_chromatic) ''amount'' = Float 1"
  "getParameter (assign_shader example_shader example_chromatic) ''direction'' = Float 0"
  "isAvailable (assign_shader example_shader ColorGradeEffect_new)"
  "m_enabled (assign_shader example_shader ColorGradeEffect_new)"
  "cache_consistent (driver gl_initial) (assign_shader example_shader ColorGradeEffect_new)"
  "shader_program (assign_shader example_shader ColorGradeEffect_new) = 1"
  "m_class (assign_shader example_shader ColorGradeEffect_new) = ColorGradeEffect 0"
  "getParameter (assign_shader example_shader ColorGradeEffect_new) ''temperature'' = Float 0.5"
  by (simp_all add: example_effect_defs isAvailable_def isValid_def cache_consistent_def
      shader_program_def getParameter_def glm_clamp_numbers)

text \<open>With hue 0.75 the HSL body binds 90; with amount 1 and direction 0 the chromatic
  aberration body binds (0.02, 0); with the default temperature 0.5 the colour grade
  body binds 0.5.\<close>

lemma hook_bodies_example:
  "d_uniforms (last (draws (snd (snd
       (GPUEffect_apply (assign_shader example_shader example_hsl) 5 7 64 64 gl_initial))))) 2
     = Some (UFloat (Float 90)) \<and>
   d_uniforms (last (draws (snd (snd
       (GPUEffect_apply (assign_shader example_shader example_chromatic) 5 7 64 64 gl_initial))))) 5
     = Some (UVec2 (Float 0.02) (Float 0)) \<and>
   d_uniforms (last (draws (snd (snd
       (GPUEffect_apply (assign_shader example_shader ColorGradeEffect_new) 5 7 64 64
          gl_initial))))) 7
     = Some (UFloat (Float 0.5))"
  using hook_bodies_with_shader [of "assign_shader example_shader example_hsl" gl_initial 5 7 64 64]
    hook_bodies_with_shader
      [of "assign_shader example_shader example_chromatic" gl_initial 5 7 64 64]
    hook_bodies_with_shader
      [of "assign_shader example_shader ColorGradeEffect_new" gl_initial 5 7 64 64]
    assigned_effects_ready example_locations
  by (simp add: glm_cos_def glm_sin_def)



section \<open>One stage of the effect chain\<close>

lemma chain_extends_refl [simp]: "chain_extends gl gl"
  by (simp add: chain_extends_def)

lemma chain_extends_trans:
  assumes "chain_extends gl gl1" "chain_extends gl1 gl2"
  shows "chain_extends gl gl2"
proof -
  from assms(1) obtain ds1 where ds1: "draws gl1 = draws gl @ ds1"
    "\<forall>d \<in> set ds1. d_target d \<notin> set (framebuffers (names gl))"
    by (auto simp: chain_extends_def)
  from assms(2) obtain ds2 where ds2: "draws gl2 = draws gl1 @ ds2"
    "\<forall>d \<in> set ds2. d_target d \<notin> set (framebuffers (names gl1))"
    by (auto simp: chain_extends_def)
  from assms have sub: "set (framebuffers (names gl)) \<subseteq> set (framebuffers (names gl1))"
    by (simp add: chain_extends_def)
  have "draws gl2 = draws gl @ (ds1 @ ds2)"
    "\<forall>d \<in> set (ds1 @ ds2). d_target d \<notin> set (framebuffers (names gl))"
    using ds1 ds2 sub by auto
  then have "\<exists>ds. draws gl2 = draws gl @ ds \<and>
      (\<forall>d \<in> set ds. d_target d \<notin> set (framebuffers (names gl)))"
    by blast
  with assms show ?thesis
    unfolding chain_extends_def by (auto simp: subset_iff)
qed

lemma createIntermediateFramebuffer_ok:
  assumes "m_context r \<noteq> None"
    and "framebuffer_config_ok (renderWidth (m_config r)) (renderHeight (m_config r)) gl"
  shows "createIntermediateFramebuffer r gl =
     Some (fresh_name (framebuffers (names gl)),
           r\<lparr>m_intermediateFramebuffers :=
               m_intermediateFramebuffers r @ [fresh_name (framebuffers (names gl))]\<rparr>,
           snd (createFramebuffer (renderWidth (m_config r)) (renderHeight (m_config r))
                  GL_RGBA gl))"
  using assms
  by (auto simp: createIntermediateFramebuffer_def Let_def createFramebuffer_result)

lemma createFramebuffer_extends:
  assumes "framebuffer_config_ok w h gl"
  shows "chain_extends gl (snd (createFramebuffer w h fmt gl))"
  using assms
  by (auto simp: chain_extends_def createFramebuffer_names createFramebuffer_tex_image
      createFramebuffer_color_attachment_other)

lemma chain_stage_disabled:
  assumes "m_effects r n = Some e" "\<not> m_enabled e"
  shows "chain_stage n cur r gl = Some (cur, r, gl)"
  using assms by (simp add: chain_stage_def)

lemma chain_stage_unavailable:
  assumes "chain_ready cur r gl" "m_effects r n = Some e" "m_enabled e" "\<not> isAvailable e"
  shows "chain_stage n cur r gl =
     Some (cur,
           r\<lparr>m_intermediateFramebuffers :=
               m_intermediateFramebuffers r @ [fresh_name (framebuffers (names gl))],
             m_effects := (m_effects r)(n \<mapsto> e)\<rparr>,
           deleteFramebuffer (fresh_name (framebuffers (names gl)))
             (snd (createFramebuffer (renderWidth (m_config r)) (renderHeight (m_config r))
                     GL_RGBA gl)))"
  using assms
  by (simp add: chain_stage_def chain_ready_def createIntermediateFramebuffer_ok
      GPUEffect_apply_def)

lemma chain_stage_applied:
  assumes "chain_ready cur r gl" "m_effects r n = Some e" "m_enabled e" "isAvailable e"
  shows "chain_stage n cur r gl =
     (let gl1 = snd (createFramebuffer (renderWidth (m_config r)) (renderHeight (m_config r))
                       GL_RGBA gl);
          a = GPUEffect_apply e cur (fresh_name (framebuffers (names gl)))
                (renderWidth (m_config r)) (renderHeight (m_config r)) gl1
      in Some (fresh_name (textures (names gl)),
               r\<lparr>m_intermediateFramebuffers :=
                   m_intermediateFramebuffers r @ [fresh_name (framebuffers (names gl))],
                 m_effects := (m_effects r)(n \<mapsto> fst (snd a))\<rparr>,
               snd (getFramebufferTexture (fresh_name (framebuffers (names gl)))
                      (snd (snd a)))))"
  using assms
  by (simp add: chain_stage_def chain_ready_def createIntermediateFramebuffer_ok Let_def
      apply_enabled_result createFramebuffer_color_attachment)

lemma removeAll_fresh_extends:
  "set xs \<subseteq> set (removeAll (fresh_name xs) (xs @ [fresh_name xs]))"
  by simp

lemma chain_stage_summary:
  assumes ready: "chain_ready cur r gl" and eff: "m_effects r n = Some e"
  shows "\<exists>cur' r' gl' e'.
     chain_stage n cur r gl = Some (cur', r', gl') \<and>
     chain_ready cur' r' gl' \<and> chain_extends gl gl' \<and>
     m_effects r' = (m_effects r)(n \<mapsto> e') \<and>
     applied e' = applied e \<and> shader_program e' = shader_program e \<and>
     tex_image gl' cur' =
       (if applied e then Shaded (shader_program e) (tex_image gl cur) else tex_image gl cur) \<and>
     (if applied e then cur' \<notin> set (textures (names gl)) else cur' = cur) \<and>
     length (framebuffers (names gl')) =
       (if applied e then Suc (length (framebuffers (names gl)))
        else length (framebuffers (names gl)))"
proof -
  let ?W = "renderWidth (m_config r)" and ?H = "renderHeight (m_config r)"
  let ?F = "fresh_name (framebuffers (names gl))" and ?T = "fresh_name (textures (names gl))"
  define gl1 where "gl1 = snd (createFramebuffer ?W ?H GL_RGBA gl)"
  from ready have ok: "framebuffer_config_ok ?W ?H gl" and ctx: "m_context r \<noteq> None"
    and live: "cur \<in> set (textures (names gl))"
    by (simp_all add: chain_ready_def)
  have ext1: "chain_extends gl gl1"
    unfolding gl1_def by (rule createFramebuffer_extends [OF ok])
  have names1: "framebuffers (names gl1) = framebuffers (names gl) @ [?F]"
    "textures (names gl1) = textures (names gl) @ [?T]"
    and att1: "color_attachment (objects gl1) ?F = ?T"
    and drv1: "driver gl1 = driver gl" and draws1: "draws gl1 = draws gl"
    and clears1: "clears gl1 = clears gl"
    and img1: "\<And>t. t \<in> set (textures (names gl)) \<Longrightarrow> tex_image gl1 t = tex_image gl t"
    using ok
    by (simp_all add: gl1_def createFramebuffer_names createFramebuffer_color_attachment
        createFramebuffer_tex_image)
  have att_old: "\<And>f. f \<in> set (framebuffers (names gl)) \<Longrightarrow>
        color_attachment (objects gl1) f = color_attachment (objects gl) f"
    by (simp add: gl1_def createFramebuffer_color_attachment_other)
  consider (disabled) "\<not> m_enabled e" | (unavailable) "m_enabled e" "\<not> isAvailable e"
    | (applied) "m_enabled e" "isAvailable e"
    by blast
  then show ?thesis
  proof cases
    case disabled
    have "m_effects r = (m_effects r)(n \<mapsto> e)"
      using eff by (simp add: map_upd_triv)
    with disabled ready show ?thesis
      using chain_stage_disabled [OF eff disabled, of cur gl]
      by (auto simp: applied_def)
  next
    case unavailable
    let ?r' = "r\<lparr>m_intermediateFramebuffers := m_intermediateFramebuffers r @ [?F],
                  m_effects := (m_effects r)(n \<mapsto> e)\<rparr>"
    let ?gl' = "deleteFramebuffer ?F gl1"
    have st: "chain_stage n cur r gl = Some (cur, ?r', ?gl')"
      using chain_stage_unavailable [OF ready eff unavailable] by (simp add: gl1_def)
    have "chain_ready cur ?r' ?gl'"
      using ready names1 drv1
      by (simp add: chain_ready_def framebuffer_config_ok_def)
    moreover have "chain_extends gl ?gl'"
      using names1 drv1 draws1 clears1 img1 att_old
      by (auto simp: chain_extends_def fresh_name_neq)
    moreover have "length (framebuffers (names ?gl')) = length (framebuffers (names gl))"
      using names1 by simp
    moreover have "tex_image ?gl' cur = tex_image gl cur"
      using img1 [OF live] by simp
    ultimately show ?thesis
      using st unavailable by (auto simp: applied_def)
  next
    case applied
    define a where "a = GPUEffect_apply e cur ?F ?W ?H gl1"
    let ?r' = "r\<lparr>m_intermediateFramebuffers := m_intermediateFramebuffers r @ [?F],
                  m_effects := (m_effects r)(n \<mapsto> fst (snd a))\<rparr>"
    let ?gl' = "snd (getFramebufferTexture ?F (snd (snd a)))"
    have st: "chain_stage n cur r gl = Some (?T, ?r', ?gl')"
      using chain_stage_applied [OF ready eff applied]
      by (simp add: Let_def gl1_def a_def)
    note res = apply_enabled_result [OF applied(2,1), of cur ?F ?W ?H gl1, folded a_def]
    have "chain_ready ?T ?r' ?gl'"
      using ready names1 drv1 res
      by (simp add: chain_ready_def framebuffer_config_ok_def)
    moreover have "chain_extends gl ?gl'"
      using names1 drv1 draws1 clears1 img1 att_old res att1
      by (auto simp: chain_extends_def fresh_name_neq)
    moreover have "length (framebuffers (names ?gl')) = Suc (length (framebuffers (names gl)))"
      using names1 res by simp
    moreover have "tex_image ?gl' ?T = Shaded (shader_program e) (tex_image gl cur)"
      using res att1 img1 [OF live] by simp
    moreover have "applied (fst (snd a)) = applied e"
      "shader_program (fst (snd a)) = shader_program e"
      using res by (simp_all add: applied_def)
    ultimately show ?thesis
      using st applied by (auto simp: applied_def)
  qed
qed

section \<open>The effect chain\<close>

lemma applied_programs_simps [simp]:
  "applied_programs m [] = []"
  "applied_programs m (n # ns) =
     (case m n of
        None \<Rightarrow> applied_programs m ns
      | Some e \<Rightarrow> (if applied e then [shader_program e] else []) @ applied_programs m ns)"
  by (simp_all add: applied_programs_def map_filter_simps split: option.splits)

lemma applied_programs_upd:
  assumes "m n = Some e" "applied e' = applied e" "shader_program e' = shader_program e"
  shows "applied_programs (m(n \<mapsto> e')) ns = applied_programs m ns"
  using assms by (induction ns) (auto split: option.splits)

lemma chain_loop_summary:
  assumes "chain_ready cur r gl" "set ns \<subseteq> dom (m_effects r)"
  shows "\<exists>out r' gl'.
     applyEffectChain_loop ns cur r gl = Some (out, r', gl') \<and>
     chain_extends gl gl' \<and>
     tex_image gl' out =
       foldl (\<lambda>img p. Shaded p img) (tex_image gl cur) (applied_programs (m_effects r) ns) \<and>
     (if applied_programs (m_effects r) ns = [] then out = cur
      else out \<notin> set (textures (names gl))) \<and>
     length (framebuffers (names gl')) =
       length (framebuffers (names gl)) + length (applied_programs (m_effects r) ns)"
  using assms
proof (induction ns arbitrary: cur r gl)
  case Nil
  then show ?case by simp
next
  case (Cons n ns)
  from Cons.prems(2) obtain e where e: "m_effects r n = Some e" by auto
  from chain_stage_summary [OF Cons.prems(1) e]
  obtain cur1 r1 gl1 e1 where st: "chain_stage n cur r gl = Some (cur1, r1, gl1)"
    and ready1: "chain_ready cur1 r1 gl1" and ext1: "chain_extends gl gl1"
    and eff1: "m_effects r1 = (m_effects r)(n \<mapsto> e1)"
    and key: "applied e1 = applied e" "shader_program e1 = shader_program e"
    and img1: "tex_image gl1 cur1 =
       (if applied e then Shaded (shader_program e) (tex_image gl cur) else tex_image gl cur)"
    and cur1: "if applied e then cur1 \<notin> set (textures (names gl)) else cur1 = cur"
    and len1: "length (framebuffers (names gl1)) =
       (if applied e then Suc (length (framebuffers (names gl)))
        else length (framebuffers (names gl)))"
    by blast
  have dom1: "set ns \<subseteq> dom (m_effects r1)"
    using Cons.prems(2) eff1 by auto
  have progs: "applied_programs (m_effects r1) ns = applied_programs (m_effects r) ns"
    unfolding eff1 by (rule applied_programs_upd [where m = "m_effects r", OF e key])
  from Cons.IH [OF ready1 dom1]
  obtain out r2 gl2 where loop: "applyEffectChain_loop ns cur1 r1 gl1 = Some (out, r2, gl2)"
    and ext2: "chain_extends gl1 gl2"
    and img2: "tex_image gl2 out =
       foldl (\<lambda>img p. Shaded p img) (tex_image gl1 cur1) (applied_programs (m_effects r) ns)"
    and out2: "if applied_programs (m_effects r) ns = [] then out = cur1
       else out \<notin> set (textures (names gl1))"
    and len2: "length (framebuffers (names gl2)) =
       length (framebuffers (names gl1)) + length (applied_programs (m_effects r) ns)"
    unfolding progs by blast
  have sub: "set (textures (names gl)) \<subseteq> set (textures (names gl1))"
    using ext1 by (simp add: chain_extends_def)
  have "applyEffectChain_loop (n # ns) cur r gl = Some (out, r2, gl2)"
    using st loop by simp
  moreover have "chain_extends gl gl2"
    by (rule chain_extends_trans [OF ext1 ext2])
  moreover have "tex_image gl2 out =
       foldl (\<lambda>img p. Shaded p img) (tex_image gl cur) (applied_programs (m_effects r) (n # ns))"
    using img2 img1 e by simp
  moreover have "if applied_programs (m_effects r) (n # ns) = [] then out = cur
      else out \<notin> set (textures (names gl))"
    using out2 cur1 e sub by (auto split: if_splits)
  moreover have "length (framebuffers (names gl2)) =
       length (framebuffers (names gl)) + length (applied_programs (m_effects r) (n # ns))"
    using len2 len1 e by simp
  ultimately show ?case by blast
qed

lemma fold_applied_programs:
  "foldl (\<lambda>img p. Shaded p img) img (applied_programs (m_effects r) (m_effectOrder r)) =
   foldl (\<lambda>img e. Shaded (shader_program e) img) img (filter applied (chain_effects r))"
  by (simp add: applied_programs_def chain_effects_def foldl_map)

text \<open>
  What the chain does with its stages, in a renderer whose context exists and whose
  ordered names are all registered, on a live input texture and with a render size for
  which framebuffers can be created: the stage of a disabled effect changes nothing and
  passes the current texture through; the stage of an enabled effect whose \<^verbatim>\<open>apply\<close>
  returns false passes the current texture through with its content unchanged; the whole
  chain always returns, and the content of the texture it returns is the fold, in
  insertion order, of the enabled effects whose apply succeeded over the content of the
  input texture.
\<close>

lemma effect_chain_fold:
  assumes "m_context r \<noteq> None"
    and "set (m_effectOrder r) \<subseteq> dom (m_effects r)"
    and "inputTexture \<in> set (textures (names gl))"
    and "framebuffer_config_ok (renderWidth (m_config r)) (renderHeight (m_config r)) gl"
  shows "(\<forall>n e. m_effects r n = Some e \<and> \<not> m_enabled e \<longrightarrow>
            chain_stage n inputTexture r gl = Some (inputTexture, r, gl)) \<and>
         (\<forall>n e. m_effects r n = Some e \<and> m_enabled e \<and> \<not> isAvailable e \<longrightarrow>
            (\<exists>r' gl'. chain_stage n inputTexture r gl = Some (inputTexture, r', gl') \<and>
               tex_image gl' inputTexture = tex_image gl inputTexture)) \<and>
         (\<exists>out r' gl'.
            applyEffectChain r gl inputTexture = Some (out, r', gl') \<and>
            tex_image gl' out =
              foldl (\<lambda>img e. Shaded (shader_program e) img) (tex_image gl inputTexture)
                (filter applied (chain_effects r)) \<and>
            (filter applied (chain_effects r) = [] \<longrightarrow> out = inputTexture))"
proof (intro conjI allI impI)
  have ready: "chain_ready inputTexture r gl"
    using assms by (simp add: chain_ready_def)
  fix n e
  {
    assume "m_effects r n = Some e \<and> \<not> m_enabled e"
    then show "chain_stage n inputTexture r gl = Some (inputTexture, r, gl)"
      by (simp add: chain_stage_disabled)
  }
  {
    assume a: "m_effects r n = Some e \<and> m_enabled e \<and> \<not> isAvailable e"
    have "tex_image (snd (createFramebuffer (renderWidth (m_config r))
             (renderHeight (m_config r)) GL_RGBA gl)) inputTexture = tex_image gl inputTexture"
      by (rule createFramebuffer_tex_image [OF assms(3)])
    then show "\<exists>r' gl'. chain_stage n inputTexture r gl = Some (inputTexture, r', gl') \<and>
               tex_image gl' inputTexture = tex_image gl inputTexture"
      using a assms(4) chain_stage_unavailable [OF ready, of n e]
      by simp
  }
next
  have ready: "chain_ready inputTexture r gl"
    using assms by (simp add: chain_ready_def)
  from chain_loop_summary [OF ready assms(2)]
  obtain out r' gl' where
    "applyEffectChain_loop (m_effectOrder r) inputTexture r gl = Some (out, r', gl')"
    "tex_image gl' out = foldl (\<lambda>img p. Shaded p img) (tex_image gl inputTexture)
        (applied_programs (m_effects r) (m_effectOrder r))"
    "if applied_programs (m_effects r) (m_effectOrder r) = [] then out = inputTexture
      else out \<notin> set (textures (names gl))"
    by blast
  then show "\<exists>out r' gl'.
            applyEffectChain r gl inputTexture = Some (out, r', gl') \<and>
            tex_image gl' out =
              foldl (\<lambda>img e. Shaded (shader_program e) img) (tex_image gl inputTexture)
                (filter applied (chain_effects r)) \<and>
            (filter applied (chain_effects r) = [] \<longrightarrow> out = inputTexture)"
    by (auto simp: applyEffectChain_def applied_programs_def chain_effects_def foldl_map
        split: if_splits)
qed

text \<open>
  What the stage of a failing effect leaves behind. \<^verbatim>\<open>createFramebuffer\<close> generated a
  framebuffer, a colour texture and a depth renderbuffer for the stage;
  \<^verbatim>\<open>deleteFramebuffer\<close> deletes the framebuffer only. After the stage the texture and the
  renderbuffer are still live, and the name of the deleted framebuffer is still in
  \<open>m_intermediateFramebuffers\<close>.
\<close>

lemma failed_stage_leaks:
  assumes "chain_ready cur r gl" "m_effects r n = Some e" "m_enabled e" "\<not> isAvailable e"
  shows "\<exists>r' gl'. chain_stage n cur r gl = Some (cur, r', gl') \<and>
     framebuffers (names gl') = framebuffers (names gl) \<and>
     textures (names gl') = textures (names gl) @ [fresh_name (textures (names gl))] \<and>
     renderbuffers (names gl')
       = renderbuffers (names gl) @ [fresh_name (renderbuffers (names gl))] \<and>
     m_intermediateFramebuffers r'
       = m_intermediateFramebuffers r @ [fresh_name (framebuffers (names gl))] \<and>
     m_effectOrder r' = m_effectOrder r"
  using assms(1) chain_stage_unavailable [OF assms]
  by (simp add: chain_ready_def createFramebuffer_names)

lemma example_renderer_ready:
  "m_context example_renderer \<noteq> None"
  "isInitialized example_renderer"
  "set (m_effectOrder example_renderer) \<subseteq> dom (m_effects example_renderer)"
  "5 \<in> set (textures (names gl_with_input))"
  "7 \<in> set (framebuffers (names gl_with_input))"
  "egl_make_current_ok (driver gl_with_input)"
  "framebuffer_config_ok (renderWidth (m_config example_renderer))
     (renderHeight (m_config example_renderer)) gl_with_input"
  "\<not> m_profilingEnabled example_renderer"
  by (simp_all add: example_renderer_def GPURenderer_new_def RenderConfig_default_def
      gl_with_input_def gl_initial_def example_driver_def framebuffer_config_ok_def
      isInitialized_def context_isInitialized_def example_context_def)

lemma example_renderer_chain:
  "filter applied (chain_effects example_renderer) = [example_base]"
  using example_effects
  by (simp add: chain_effects_def example_renderer_def GPURenderer_new_def map_filter_simps
      applied_def)

lemma gl_with_input_values:
  "tex_image gl_with_input 5 = External 5"
  "framebuffers (names gl_with_input) = [7]"
  "textures (names gl_with_input) = [5, 9]"
  "renderbuffers (names gl_with_input) = []"
  "color_attachment (objects gl_with_input) 7 = 9"
  "draws gl_with_input = []" "clears gl_with_input = []"
  "fresh_name [7] = 8" "fresh_name [5, 9] = 10" "fresh_name [] = 1"
  by (simp_all add: gl_with_input_def gl_initial_def fresh_name_def)

lemma effect_chain_fold_example:
  "\<exists>out r' gl'.
     applyEffectChain example_renderer gl_with_input 5 = Some (out, r', gl') \<and>
     tex_image gl' out = Shaded 1 (External 5)"
  using effect_chain_fold [OF example_renderer_ready(1,3,4,7)]
  by (simp add: example_renderer_chain gl_with_input_values shader_program_def
      example_base_def GPUEffect_new_def example_shader_def)

lemma failing_renderer_values:
  "fst (addEffect (Some unnamed_effect) (GPURenderer_new\<lparr>m_context := Some example_context\<rparr>))
     = True"
  "m_effectOrder failing_renderer = [[]]"
  "m_effects failing_renderer [] = Some unnamed_effect"
  "m_intermediateFramebuffers failing_renderer = []"
  "m_enabled unnamed_effect" "\<not> isAvailable unnamed_effect"
  "chain_ready 5 failing_renderer gl_with_input"
  by (simp_all add: failing_renderer_def addEffect_def unnamed_effect_def GPUEffect_new_def
      GPURenderer_new_def isAvailable_def chain_ready_def framebuffer_config_ok_def
      RenderConfig_default_def gl_with_input_def gl_initial_def example_driver_def)

text \<open>
  C5, where the code departs from it. \<open>failing_renderer\<close> has its context and one effect
  in its chain, enabled and without a compiled shader; the input frame is texture 5, and
  before the call the live objects are the textures 5 and 9, the framebuffer 7 and no
  renderbuffer. \<^verbatim>\<open>applyEffectChain\<close> returns the input texture 5 with its content unchanged:
  the failing effect does not abort the chain. But of the framebuffer allocated for the
  stage only the framebuffer object 8 is deleted: its colour texture 10 and its depth
  renderbuffer 1 are still live after the call, and the deleted name 8 is still in
  \<open>m_intermediateFramebuffers\<close>.
\<close>

theorem failed_stage_leaves_attachments:
  "fst (addEffect (Some unnamed_effect) (GPURenderer_new\<lparr>m_context := Some example_context\<rparr>))
     = True \<and>
   m_effectOrder failing_renderer = [[]] \<and>
   (\<exists>r' gl'.
      applyEffectChain failing_renderer gl_with_input 5 = Some (5, r', gl') \<and>
      tex_image gl' 5 = External 5 \<and>
      framebuffers (names gl') = [7] \<and>
      textures (names gl') = [5, 9, 10] \<and>
      renderbuffers (names gl') = [1] \<and>
      m_intermediateFramebuffers r' = [8])"
proof -
  from chain_stage_unavailable [OF failing_renderer_values(7,3,5,6)]
  obtain r' gl' where st: "chain_stage [] 5 failing_renderer gl_with_input = Some (5, r', gl')"
    and gl': "gl' = deleteFramebuffer (fresh_name (framebuffers (names gl_with_input)))
        (snd (createFramebuffer (renderWidth (m_config failing_renderer))
                (renderHeight (m_config failing_renderer)) GL_RGBA gl_with_input))"
    and r': "r' = failing_renderer
        \<lparr>m_intermediateFramebuffers := m_intermediateFramebuffers failing_renderer
            @ [fresh_name (framebuffers (names gl_with_input))],
         m_effects := (m_effects failing_renderer)([] \<mapsto> unnamed_effect)\<rparr>"
    by simp
  have ok: "framebuffer_config_ok (renderWidth (m_config failing_renderer))
      (renderHeight (m_config failing_renderer)) gl_with_input"
    using failing_renderer_values(7) by (simp add: chain_ready_def)
  have "applyEffectChain failing_renderer gl_with_input 5 = Some (5, r', gl')"
    using st by (simp add: applyEffectChain_def failing_renderer_values)
  moreover have "framebuffers (names gl') = [7]" "textures (names gl') = [5, 9, 10]"
    "renderbuffers (names gl') = [1]"
    using ok by (simp_all add: gl' createFramebuffer_names gl_with_input_values)
  moreover have "tex_image gl' 5 = External 5"
    using createFramebuffer_tex_image [OF example_renderer_ready(4)]
    by (simp add: gl' gl_with_input_values)
  moreover have "m_intermediateFramebuffers r' = [8]"
    by (simp add: r' failing_renderer_values gl_with_input_values)
  ultimately show ?thesis
    using failing_renderer_values(1,2) by simp
qed

section \<open>renderToTexture and renderFrame\<close>

lemma makeCurrent_state [simp]:
  "fst (makeCurrent gl) = egl_make_current_ok (driver gl)"
  "names (snd (makeCurrent gl)) = names gl"
  "objects (snd (makeCurrent gl)) = objects gl"
  "tex_image (snd (makeCurrent gl)) = tex_image gl"
  "draws (snd (makeCurrent gl)) = draws gl"
  "clears (snd (makeCurrent gl)) = clears gl"
  "driver (snd (makeCurrent gl)) = driver gl"
  "fst (releaseContext gl) = egl_make_current_ok (driver gl)"
  "names (snd (releaseContext gl)) = names gl"
  "objects (snd (releaseContext gl)) = objects gl"
  "tex_image (snd (releaseContext gl)) = tex_image gl"
  "draws (snd (releaseContext gl)) = draws gl"
  "clears (snd (releaseContext gl)) = clears gl"
  "driver (snd (releaseContext gl)) = driver gl"
  by (simp_all add: makeCurrent_def releaseContext_def)

lemma isInitialized_context: "isInitialized r \<Longrightarrow> m_context r \<noteq> None"
  by (auto simp: isInitialized_def split: option.splits)

text \<open>
  C3. When \<^verbatim>\<open>renderToTexture\<close> gets as far as running the chain (the renderer is
  initialized, the context can be made current, the framebuffer can be created), the
  handle it returns is the texture generated for the framebuffer it allocated before the
  chain ran: a name that was not in use before the call, attached to that framebuffer
  both before and after the chain. No draw call of the chain targets that framebuffer,
  the content of the returned texture is still the undefined content it was allocated
  with, and the texture the chain returned is a different one.
\<close>

theorem renderToTexture_returns_unrendered_attachment:
  assumes "isInitialized r" and "egl_make_current_ok (driver gl)"
    and "set (m_effectOrder r) \<subseteq> dom (m_effects r)"
    and "inputTexture \<in> set (textures (names gl))"
    and "framebuffer_config_ok (renderWidth (m_config r)) (renderHeight (m_config r)) gl"
  shows "\<exists>r' gl' chainOutput r1 gl1 gl2.
     renderToTexture r gl inputTexture = Some (fresh_name (textures (names gl)), r', gl') \<and>
     fresh_name (textures (names gl)) \<notin> set (textures (names gl)) \<and>
     createIntermediateFramebuffer r (snd (makeCurrent gl))
       = Some (fresh_name (framebuffers (names gl)), r1, gl1) \<and>
     color_attachment (objects gl1) (fresh_name (framebuffers (names gl)))
       = fresh_name (textures (names gl)) \<and>
     applyEffectChain r1 gl1 inputTexture = Some (chainOutput, r', gl2) \<and>
     chainOutput \<noteq> fresh_name (textures (names gl)) \<and>
     color_attachment (objects gl') (fresh_name (framebuffers (names gl)))
       = fresh_name (textures (names gl)) \<and>
     (\<exists>ds. draws gl' = draws gl @ ds \<and>
           (\<forall>d \<in> set ds. d_target d \<noteq> fresh_name (framebuffers (names gl)))) \<and>
     tex_image gl' (fresh_name (textures (names gl))) = Blank"
proof -
  let ?W = "renderWidth (m_config r)" and ?H = "renderHeight (m_config r)"
  let ?F = "fresh_name (framebuffers (names gl))" and ?T = "fresh_name (textures (names gl))"
  let ?mc = "snd (makeCurrent gl)"
  define gl1 where "gl1 = snd (createFramebuffer ?W ?H GL_RGBA ?mc)"
  define r1 where
    "r1 = r\<lparr>m_intermediateFramebuffers := m_intermediateFramebuffers r @ [?F]\<rparr>"
  have ctx: "m_context r \<noteq> None" by (rule isInitialized_context [OF assms(1)])
  have ok: "framebuffer_config_ok ?W ?H ?mc"
    using assms(5) by (simp add: framebuffer_config_ok_def)
  have create: "createIntermediateFramebuffer r ?mc = Some (?F, r1, gl1)"
    using createIntermediateFramebuffer_ok [OF ctx ok] by (simp add: r1_def gl1_def)
  have names1: "framebuffers (names gl1) = framebuffers (names gl) @ [?F]"
    "textures (names gl1) = textures (names gl) @ [?T]"
    and att1: "color_attachment (objects gl1) ?F = ?T"
    and drv1: "driver gl1 = driver gl" and draws1: "draws gl1 = draws gl"
    using ok
    by (simp_all add: gl1_def createFramebuffer_names createFramebuffer_color_attachment)
  have img1: "tex_image gl1 ?T = Blank"
    using createFramebuffer_tex_image_new [OF ok, of GL_RGBA] by (simp add: gl1_def)
  have ready: "chain_ready inputTexture r1 gl1"
    using ctx assms(4,5) names1 drv1
    by (simp add: chain_ready_def r1_def framebuffer_config_ok_def)
  have dom1: "set (m_effectOrder r1) \<subseteq> dom (m_effects r1)"
    using assms(3) by (simp add: r1_def)
  from chain_loop_summary [OF ready dom1]
  obtain out r2 gl2 where chain: "applyEffectChain r1 gl1 inputTexture = Some (out, r2, gl2)"
    and ext: "chain_extends gl1 gl2"
    and out: "if applied_programs (m_effects r1) (m_effectOrder r1) = [] then out = inputTexture
       else out \<notin> set (textures (names gl1))"
    unfolding applyEffectChain_def by blast
  from ext obtain ds where ds: "draws gl2 = draws gl1 @ ds"
    "\<forall>d \<in> set ds. d_target d \<notin> set (framebuffers (names gl1))"
    by (auto simp: chain_extends_def)
  have att2: "color_attachment (objects gl2) ?F = ?T"
    using ext names1 att1 by (simp add: chain_extends_def)
  have img2: "tex_image gl2 ?T = Blank"
    using ext names1 img1 by (simp add: chain_extends_def)
  have neq: "out \<noteq> ?T"
    using out assms(4) names1 fresh_name_notin [of "textures (names gl)"]
    by (auto split: if_splits)
  let ?gl' = "snd (releaseContext (snd (getFramebufferTexture ?F gl2)))"
  have result: "renderToTexture r gl inputTexture = Some (?T, r2, ?gl')"
    using assms(1,2) create chain att2
    by (simp add: renderToTexture_def Let_def)
  have new_draws: "\<exists>ds. draws ?gl' = draws gl @ ds \<and> (\<forall>d \<in> set ds. d_target d \<noteq> ?F)"
    using ds draws1 names1 by auto
  have final: "color_attachment (objects ?gl') ?F = ?T" "tex_image ?gl' ?T = Blank"
    using att2 img2 by simp_all
  show ?thesis
    apply (rule exI [of _ r2])
    apply (rule exI [of _ "?gl'"])
    apply (rule exI [of _ out])
    apply (rule exI [of _ r1])
    apply (rule exI [of _ gl1])
    apply (rule exI [of _ gl2])
    using result create chain neq att1 new_draws final
    apply simp
    done
qed

theorem renderToTexture_returns_unrendered_attachment_witness:
  "\<exists>r' gl'.
     renderToTexture example_renderer gl_with_input 5 = Some (10, r', gl') \<and>
     color_attachment (objects gl') 8 = 10 \<and> tex_image gl' 10 = Blank"
  using renderToTexture_returns_unrendered_attachment [OF example_renderer_ready(2,6,3,4,7)]
  by (auto simp: gl_with_input_values)

lemma clearScreen_bound:
  "clears (clearScreen (snd (bindFramebuffer f gl))) = clears gl @ [f]"
  "draws (clearScreen (snd (bindFramebuffer f gl))) = draws gl"
  "f \<noteq> 0 \<Longrightarrow> color_attachment (objects gl) f \<noteq> 0 \<Longrightarrow>
   tex_image (clearScreen (snd (bindFramebuffer f gl))) (color_attachment (objects gl) f)
     = Cleared"
  by (simp_all add: clearScreen_def bindFramebuffer_def)

lemma chain_stage_profiling:
  "chain_stage n cur r gl = Some (cur', r', gl') \<Longrightarrow>
   m_profilingEnabled r' = m_profilingEnabled r"
  by (auto simp: chain_stage_def createIntermediateFramebuffer_def Let_def
      split: option.splits if_splits)

lemma chain_loop_profiling:
  "applyEffectChain_loop ns cur r gl = Some (out, r', gl') \<Longrightarrow>
   m_profilingEnabled r' = m_profilingEnabled r"
proof (induction ns arbitrary: cur r gl)
  case Nil
  then show ?case by simp
next
  case (Cons n ns)
  then show ?case
    by (auto split: option.splits dest: chain_stage_profiling)
qed

text \<open>What \<^verbatim>\<open>renderFrame\<close> does with a caller-supplied framebuffer, with profiling off: it
  clears it, and no draw call it adds targets it.\<close>

lemma renderFrame_summary:
  assumes "isInitialized r" and "egl_make_current_ok (driver gl)"
    and "set (m_effectOrder r) \<subseteq> dom (m_effects r)"
    and "inputTexture \<in> set (textures (names gl))"
    and "framebuffer_config_ok (renderWidth (m_config r)) (renderHeight (m_config r)) gl"
    and "outputFramebuffer \<in> set (framebuffers (names gl))" and "outputFramebuffer \<noteq> 0"
    and "color_attachment (objects gl) outputFramebuffer \<noteq> 0"
    and "\<not> m_profilingEnabled r"
  shows "\<exists>r' gl' ds.
     renderFrame r gl inputTexture outputFramebuffer = Some (True, r', gl') \<and>
     clears gl' = clears gl @ [outputFramebuffer] \<and>
     draws gl' = draws gl @ ds \<and>
     outputFramebuffer \<notin> set (map d_target ds) \<and>
     tex_image gl' (color_attachment (objects gl) outputFramebuffer) = Cleared"
proof -
  let ?mc = "snd (makeCurrent gl)"
  have r0: "(if m_profilingEnabled r then beginProfiling r else r) = r"
    by (simp add: beginProfiling_def)
  have ready: "chain_ready inputTexture r ?mc"
    using isInitialized_context [OF assms(1)] assms(4,5)
    by (simp add: chain_ready_def framebuffer_config_ok_def)
  from chain_loop_summary [OF ready assms(3)]
  obtain out r1 gl1 where chain: "applyEffectChain r ?mc inputTexture = Some (out, r1, gl1)"
    and ext: "chain_extends ?mc gl1"
    unfolding applyEffectChain_def by blast
  from ext obtain ds where ds: "draws gl1 = draws gl @ ds"
    "\<forall>d \<in> set ds. d_target d \<notin> set (framebuffers (names gl))"
    by (auto simp: chain_extends_def)
  have att: "color_attachment (objects gl1) outputFramebuffer
      = color_attachment (objects gl) outputFramebuffer"
    and cl: "clears gl1 = clears gl"
    using ext assms(6) by (simp_all add: chain_extends_def)
  let ?gl' = "snd (releaseContext (clearScreen (snd (bindFramebuffer outputFramebuffer gl1))))"
  have prof: "\<not> m_profilingEnabled r1"
    using chain_loop_profiling [of "m_effectOrder r" inputTexture r ?mc out r1 gl1] chain assms(9)
    by (simp add: applyEffectChain_def)
  have result: "renderFrame r gl inputTexture outputFramebuffer = Some (True, r1, ?gl')"
    using assms(1,2,7) chain prof by (simp add: renderFrame_def Let_def r0)
  have "clears ?gl' = clears gl @ [outputFramebuffer]" "draws ?gl' = draws gl @ ds"
    "tex_image ?gl' (color_attachment (objects gl) outputFramebuffer) = Cleared"
    using clearScreen_bound [of outputFramebuffer gl1] assms(7,8) ds att cl by simp_all
  moreover have "outputFramebuffer \<notin> set (map d_target ds)"
    using ds(2) assms(6) by auto
  ultimately show ?thesis
    using result by blast
qed

text \<open>
  C2. \<^verbatim>\<open>renderFrame\<close> on the example renderer, with input texture 5 and the caller's
  framebuffer 7 (colour attachment 9), returns true; the only thing done to framebuffer 7
  is to clear it. No draw call targets it, so the chain's output is never presented, and
  the content of its attachment is the cleared image.
\<close>

theorem renderFrame_only_clears_output:
  "\<exists>r' gl'.
     renderFrame example_renderer gl_with_input 5 7 = Some (True, r', gl') \<and>
     clears gl' = [7] \<and> 7 \<notin> set (map d_target (draws gl')) \<and> tex_image gl' 9 = Cleared"
  using renderFrame_summary [OF example_renderer_ready(2,6,3,4,7,5) _ _ example_renderer_ready(8),
      simplified gl_with_input_values]
  by (auto simp: gl_with_input_values)

end
